theory Spec2Isabelle
  imports Main "HOL-Library.Sublist"
begin

section \<open>Values, exceptions and results\<close>

text \<open>
  The resource context of \<^verbatim>\<open>asphalt/core/context.py\<close> and the component
  context of \<^verbatim>\<open>asphalt/core/_component.py\<close>, as state-passing functions.

  Contexts are Python objects that refer to their parent; their identity is a
  natural number and the heap of contexts is a function from identities to
  context records. Types used as dictionary keys are identified by name.
\<close>

type_synonym ctx_id = nat
type_synonym type_name = string

text \<open>
  Exceptions. \<open>OtherException\<close> stands for an instance of any other subclass of
  \<^verbatim>\<open>Exception\<close> that a callback raises, \<open>NonException\<close> for an instance of
  \<^verbatim>\<open>BaseException\<close> outside \<^verbatim>\<open>Exception\<close> (KeyboardInterrupt, SystemExit,
  GeneratorExit).
\<close>

datatype error =
    ValueError
  | TypeError
  | ResourceConflict
  | RuntimeError
  | RecursionError
  | AssertionError
  | AttributeError
  | OtherException string
  | NonException string

fun is_Exception :: "error \<Rightarrow> bool" where
  "is_Exception (NonException _) = False"
| "is_Exception _ = True"

datatype 'a result = Raise error | Return 'a

text \<open>
  Python values. \<open>None\<close> of Python is \<open>None\<close> of \<open>pyval option\<close>.
  \<open>ObjV cls oid\<close> is the instance \<open>oid\<close> of class \<open>cls\<close>. \<open>FunV nm coro f\<close> is
  a callable named \<open>nm\<close>; \<open>coro\<close> says whether \<^verbatim>\<open>iscoroutinefunction\<close> holds of
  it. A callable used as a resource factory is called with the requesting
  context; its first argument here is the length of the trace at the time of the
  call, a clock that stands for whatever hidden state lets a Python callable
  answer differently on each call (allocating a new object, say). Callbacks
  return or raise; they are not modelled as changing the contexts themselves.

  \<^verbatim>\<open>assert check_argument_types()\<close> is the typing of the arguments here: a
  name is a string, a factory callback is a \<open>callable\<close>.
\<close>

datatype pyval =
    IntV int
  | StrV string
  | ObjV type_name nat
  | FunV string bool "nat \<Rightarrow> ctx_id \<Rightarrow> pyval option result"

fun py_type :: "pyval option \<Rightarrow> type_name" where
  "py_type None = ''NoneType''"
| "py_type (Some (IntV _)) = ''int''"
| "py_type (Some (StrV _)) = ''str''"
| "py_type (Some (ObjV cls _)) = cls"
| "py_type (Some (FunV _ _ _)) = ''function''"

datatype callable = Callable string bool "nat \<Rightarrow> ctx_id \<Rightarrow> pyval option result"

fun fun_value :: "callable \<Rightarrow> pyval" where
  "fun_value (Callable nm coro f) = FunV nm coro f"

section \<open>ResourceContainer\<close>

record container =
  value_or_factory :: pyval
  types :: "type_name list"
  name :: string
  context_attr :: "string option"
  is_factory :: bool

section \<open>Context\<close>

text \<open>
  Teardown callbacks: called with no argument or with the exception that ended
  the context (\<open>Arg None\<close> when it ended cleanly). A call returns a plain value,
  returns an awaitable (whose awaiting finishes, or raises), or raises.
\<close>

datatype cb_arg = NoArg | Arg "error option"

datatype cb_result = Returns | ReturnsAwaitable "error option" | Raises error

datatype teardown_callback = TeardownCallback string "cb_arg \<Rightarrow> cb_result"

fun callable_name :: "teardown_callback \<Rightarrow> string" where
  "callable_name (TeardownCallback nm _) = nm"

fun call_teardown :: "teardown_callback \<Rightarrow> cb_arg \<Rightarrow> cb_result" where
  "call_teardown (TeardownCallback _ f) a = f a"

text \<open>
  The fields of a context are those set by \<^verbatim>\<open>Context.__init__\<close>, and:
  \<^item> \<open>teardown_callbacks\<close> is \<open>None\<close> once \<^verbatim>\<open>close\<close> has deleted the attribute;
  \<^item> \<open>attrs\<close> holds the instance attributes bound by \<^verbatim>\<open>setattr\<close> in
    \<^verbatim>\<open>add_resource\<close>;
  \<^item> \<open>dispatched\<close> lists the containers dispatched through this context's
    \<^verbatim>\<open>resource_added\<close> signal, oldest first.
\<close>

record Context =
  parent :: "ctx_id option"
  resources :: "(type_name \<times> string) \<rightharpoonup> container"
  resource_factories :: "(type_name \<times> string) \<rightharpoonup> container"
  resource_factories_by_context_attr :: "string \<rightharpoonup> container"
  teardown_callbacks :: "(teardown_callback \<times> bool) list option"
  closed :: bool
  attrs :: "string \<rightharpoonup> pyval"
  dispatched :: "container list"

text \<open>
  What happens outside the contexts is kept in a trace, oldest first: the calls of
  factory callbacks (callable's name, requesting context), the calls of teardown
  callbacks, the awaiting of what they return, and the errors logged by
  \<^verbatim>\<open>logger.exception\<close>.
\<close>

datatype log_event =
    FactoryCalled string ctx_id
  | TeardownCalled string cb_arg
  | Awaited string
  | LoggedError string error

record state =
  contexts :: "ctx_id \<Rightarrow> Context"
  trace :: "log_event list"

definition init_context :: "ctx_id option \<Rightarrow> Context" where
  "init_context p =
     \<lparr> parent = p, resources = Map.empty, resource_factories = Map.empty,
       resource_factories_by_context_attr = Map.empty,
       teardown_callbacks = Some [], closed = False,
       attrs = Map.empty, dispatched = [] \<rparr>"

definition update_context :: "state \<Rightarrow> ctx_id \<Rightarrow> (Context \<Rightarrow> Context) \<Rightarrow> state" where
  "update_context s c f = s\<lparr> contexts := (contexts s)(c := f (contexts s c)) \<rparr>"

text \<open>
  \<^verbatim>\<open>context_chain\<close>: the context, its parent, and so on to the root.
  \<^item> A parent is constructed before its children, so its identity is the smaller
    one; the test \<open>p < c\<close> is what makes the walk a total function on every heap
    and is never false on a heap where contexts were numbered in the order of
    construction (shown below for every state that the operations reach).
  \<^item> On a root, \<^verbatim>\<open>add_resource\<close> accepts \<^verbatim>\<open>_parent\<close> as a context attribute
    (see \<open>has_static_attr\<close> below) and \<^verbatim>\<open>setattr\<close> then replaces the field by
    the resource's value, which has no \<^verbatim>\<open>parent\<close>. The \<^verbatim>\<open>AttributeError\<close> of
    the walk, raised inside a property, sends Python to \<^verbatim>\<open>__getattr__\<close>, which
    reads \<^verbatim>\<open>context_chain\<close> again, and so on: a \<^verbatim>\<open>RecursionError\<close>.
\<close>

function context_chain :: "state \<Rightarrow> ctx_id \<Rightarrow> ctx_id list result" where
  "context_chain s c =
     (if attrs (contexts s c) ''_parent'' \<noteq> None then Raise RecursionError
      else case parent (contexts s c) of
             None \<Rightarrow> Return [c]
           | Some p \<Rightarrow>
               (if p < c
                then (case context_chain s p of
                        Raise e \<Rightarrow> Raise e
                      | Return xs \<Rightarrow> Return (c # xs))
                else Return [c]))"
  by pat_completeness auto
termination
  by (relation "measure snd") auto

declare context_chain.simps [simp del]

text \<open>\<^verbatim>\<open>resource_name_re = re.compile(r'\w+')\<close>, used with \<^verbatim>\<open>fullmatch\<close>:
  a nonempty string of letters, digits and underscores. The characters of
  \<open>string\<close> are bytes and names are taken to be ASCII; the letters and digits
  beyond ASCII, which \<^verbatim>\<open>\w\<close> matches too, are not represented.\<close>

definition is_word_char :: "char \<Rightarrow> bool" where
  "is_word_char ch =
     (let n = (of_char ch :: nat)
      in (48 \<le> n \<and> n \<le> 57) \<or> (65 \<le> n \<and> n \<le> 90) \<or> (97 \<le> n \<and> n \<le> 122) \<or> n = 95)"

definition resource_name_ok :: "string \<Rightarrow> bool" where
  "resource_name_ok nm = (nm \<noteq> [] \<and> list_all is_word_char nm)"

text \<open>
  \<^verbatim>\<open>getattr_static(self, context_attr, None) is not None\<close>: the name is found,
  with a value other than \<^verbatim>\<open>None\<close>, among the instance's attributes or the
  members of the class. The instance field \<^verbatim>\<open>_parent\<close> is \<^verbatim>\<open>None\<close> on a root,
  and \<^verbatim>\<open>_teardown_callbacks\<close> is deleted by \<^verbatim>\<open>close\<close>. The members of the
  class are those of \<^verbatim>\<open>Context\<close> and those that it inherits from \<^verbatim>\<open>object\<close>
  (as of Python 3.6).
\<close>

definition class_members :: "string list" where
  "class_members =
     [''__module__'', ''__doc__'', ''__dict__'', ''__weakref__'',
      ''resource_added'', ''parent'', ''context_chain'', ''_check_closed'',
      ''add_teardown_callback'', ''close'', ''add_resource'', ''add_resource_factory'',
      ''get_resources'', ''get_resource'', ''require_resource'', ''request_resource'',
      ''__init__'', ''__getattr__'', ''__enter__'', ''__exit__'', ''__aenter__'',
      ''__aexit__'']"

definition object_members :: "string list" where
  "object_members =
     [''__class__'', ''__delattr__'', ''__dir__'', ''__eq__'', ''__format__'', ''__ge__'',
      ''__getattribute__'', ''__gt__'', ''__hash__'', ''__init_subclass__'', ''__le__'',
      ''__lt__'', ''__ne__'', ''__new__'', ''__reduce__'', ''__reduce_ex__'', ''__repr__'',
      ''__setattr__'', ''__sizeof__'', ''__str__'', ''__subclasshook__'']"

definition instance_fields :: "string list" where
  "instance_fields =
     [''_resources'', ''_resource_factories'', ''_resource_factories_by_context_attr'',
      ''_closed'', ''default_timeout'', ''loop'']"

definition has_static_attr :: "Context \<Rightarrow> string \<Rightarrow> bool" where
  "has_static_attr ctx a =
     (attrs ctx a \<noteq> None
      \<or> a \<in> set class_members
      \<or> a \<in> set object_members
      \<or> a \<in> set instance_fields
      \<or> (a = ''_parent'' \<and> parent ctx \<noteq> None)
      \<or> (a = ''_teardown_callbacks'' \<and> teardown_callbacks ctx \<noteq> None))"

text \<open>Truth value of an optional string: \<^verbatim>\<open>None\<close> and \<^verbatim>\<open>''\<close> are false.\<close>

fun truthy :: "string option \<Rightarrow> bool" where
  "truthy None = False"
| "truthy (Some a) = (a \<noteq> [])"

text \<open>The \<^verbatim>\<open>types\<close> argument: one type, or a sequence of types.\<close>

datatype types_arg = OneType type_name | TypeSeq "type_name list"

fun resolve_types :: "types_arg \<Rightarrow> pyval option \<Rightarrow> type_name list" where
  "resolve_types (OneType t) v = [t]"
| "resolve_types (TypeSeq ts) v = (if ts = [] then [py_type v] else ts)"

text \<open>\<^verbatim>\<open>for type_ in resource.types: self._resources[(type_, name)] = resource\<close>\<close>

fun store_under ::
  "type_name list \<Rightarrow> string \<Rightarrow> container \<Rightarrow>
   ((type_name \<times> string) \<rightharpoonup> container) \<Rightarrow> ((type_name \<times> string) \<rightharpoonup> container)" where
  "store_under [] nm r m = m"
| "store_under (t # ts) nm r m = store_under ts nm r (m((t, nm) \<mapsto> r))"

text \<open>\<^verbatim>\<open>setattr(self, context_attr, value)\<close>, done when \<^verbatim>\<open>context_attr\<close> is true.\<close>

fun bind_attr :: "string option \<Rightarrow> pyval \<Rightarrow> Context \<Rightarrow> Context" where
  "bind_attr None v ctx = ctx"
| "bind_attr (Some a) v ctx = (if a = [] then ctx else ctx\<lparr> attrs := (attrs ctx)(a \<mapsto> v) \<rparr>)"

text \<open>
  \<^verbatim>\<open>add_resource\<close>. Its last statement dispatches the \<^verbatim>\<open>resource_added\<close>
  signal. \<^verbatim>\<open>Signal.dispatch\<close> (module \<^verbatim>\<open>asphalt.core.event\<close>, not among the
  sources) needs the current event loop of the thread and raises
  \<^verbatim>\<open>RuntimeError\<close> when there is none; whether there is one is the parameter
  \<open>loop\<close>. The dispatch comes after the stores and the \<^verbatim>\<open>setattr\<close>.
\<close>

definition add_resource_in ::
  "bool \<Rightarrow> state \<Rightarrow> ctx_id \<Rightarrow> pyval option \<Rightarrow> string \<Rightarrow> string option \<Rightarrow> types_arg \<Rightarrow>
   container result \<times> state" where
  "add_resource_in loop s c v nm attr tys =
     (let ts = resolve_types tys v; ctx = contexts s c
      in case v of
           None \<Rightarrow> (Raise ValueError, s)
         | Some val \<Rightarrow>
             if \<not> resource_name_ok nm then (Raise ValueError, s)
             else if truthy attr \<and> has_static_attr ctx (the attr) then (Raise ResourceConflict, s)
             else if list_ex (\<lambda>t. resources ctx (t, nm) \<noteq> None) ts then (Raise ResourceConflict, s)
             else
               let resource = \<lparr> value_or_factory = val, types = ts, name = nm,
                                context_attr = attr, is_factory = False \<rparr>
               in if loop
                  then (Return resource,
                        update_context s c (\<lambda>ctx.
                          (bind_attr attr val
                             (ctx\<lparr> resources := store_under ts nm resource (resources ctx) \<rparr>))
                          \<lparr> dispatched := dispatched ctx @ [resource] \<rparr>))
                  else (Raise RuntimeError,
                        update_context s c (\<lambda>ctx.
                          bind_attr attr val
                            (ctx\<lparr> resources := store_under ts nm resource (resources ctx) \<rparr>))))"

text \<open>
  The contexts of an application are used from the tasks of its event loop:
  \<open>add_resource\<close> is the method with the loop running. So is
  \<open>add_resource_factory\<close> below, which ends with the same dispatch.
\<close>

definition add_resource ::
  "state \<Rightarrow> ctx_id \<Rightarrow> pyval option \<Rightarrow> string \<Rightarrow> string option \<Rightarrow> types_arg \<Rightarrow>
   container result \<times> state" where
  "add_resource = add_resource_in True"

definition listed_types :: "types_arg \<Rightarrow> type_name list" where
  "listed_types tys = (case tys of OneType t \<Rightarrow> [t] | TypeSeq ts \<Rightarrow> ts)"

fun iscoroutinefunction :: "callable \<Rightarrow> bool" where
  "iscoroutinefunction (Callable _ coro _) = coro"

definition add_resource_factory ::
  "state \<Rightarrow> ctx_id \<Rightarrow> callable \<Rightarrow> types_arg \<Rightarrow> string \<Rightarrow> string option \<Rightarrow>
   container result \<times> state" where
  "add_resource_factory s c factory_callback tys nm attr =
     (let ts = listed_types tys; ctx = contexts s c
      in if \<not> resource_name_ok nm then (Raise ValueError, s)
         else if iscoroutinefunction factory_callback then (Raise TypeError, s)
         else if ts = [] then (Raise ValueError, s)
         else if (case attr of None \<Rightarrow> False
                  | Some a \<Rightarrow> resource_factories_by_context_attr ctx a \<noteq> None)
           then (Raise ResourceConflict, s)
         else if list_ex (\<lambda>t. resource_factories ctx (t, nm) \<noteq> None) ts
           then (Raise ResourceConflict, s)
         else
           let resource = \<lparr> value_or_factory = fun_value factory_callback, types = ts, name = nm,
                            context_attr = attr, is_factory = True \<rparr>
           in (Return resource,
               update_context s c (\<lambda>ctx.
                 ctx\<lparr> resource_factories := store_under ts nm resource (resource_factories ctx),
                      resource_factories_by_context_attr :=
                        (if truthy attr
                         then (resource_factories_by_context_attr ctx)(the attr \<mapsto> resource)
                         else resource_factories_by_context_attr ctx),
                      dispatched := dispatched ctx @ [resource] \<rparr>)))"

subsection \<open>Factory evaluation and lookup\<close>

fun call_factory :: "pyval \<Rightarrow> nat \<Rightarrow> ctx_id \<Rightarrow> pyval option result" where
  "call_factory (FunV _ _ f) clock c = f clock c"
| "call_factory _ clock c = Raise TypeError"

fun factory_name :: "pyval \<Rightarrow> string" where
  "factory_name (FunV nm _ _) = nm"
| "factory_name _ = []"

text \<open>\<^verbatim>\<open>ResourceContainer.generate_value(self, ctx)\<close>\<close>

definition generate_value :: "state \<Rightarrow> container \<Rightarrow> ctx_id \<Rightarrow> pyval option result \<times> state" where
  "generate_value s r c =
     (if \<not> is_factory r then (Raise AssertionError, s)
      else
        let s1 = s\<lparr> trace := trace s @ [FactoryCalled (factory_name (value_or_factory r)) c] \<rparr>
        in case call_factory (value_or_factory r) (length (trace s)) c of
             Raise e \<Rightarrow> (Raise e, s1)
           | Return v \<Rightarrow>
               (case add_resource s1 c v (name r) (context_attr r) (TypeSeq (types r)) of
                  (Raise e, s2) \<Rightarrow> (Raise e, s2)
                | (Return _, s2) \<Rightarrow> (Return v, s2)))"

text \<open>
  The two generator expressions of \<^verbatim>\<open>get_resource\<close>, and the first loop of
  \<^verbatim>\<open>__getattr__\<close>: the first container found under the key, walking
  \<^verbatim>\<open>context_chain\<close> from the context to the root.
\<close>

fun first_in_chain ::
  "(Context \<Rightarrow> 'k \<rightharpoonup> container) \<Rightarrow> state \<Rightarrow> ctx_id list \<Rightarrow> 'k \<Rightarrow> container option" where
  "first_in_chain table s [] key = None"
| "first_in_chain table s (x # xs) key =
     (case table (contexts s x) key of
        Some r \<Rightarrow> Some r
      | None \<Rightarrow> first_in_chain table s xs key)"

definition get_resource ::
  "state \<Rightarrow> ctx_id \<Rightarrow> type_name \<Rightarrow> string \<Rightarrow> pyval option result \<times> state" where
  "get_resource s c ty nm =
     (let key = (ty, nm)
      in case resources (contexts s c) key of
           Some resource \<Rightarrow> (Return (Some (value_or_factory resource)), s)
         | None \<Rightarrow>
             (case context_chain s c of
                Raise e \<Rightarrow> (Raise e, s)
              | Return chain \<Rightarrow>
                  (case first_in_chain resource_factories s chain key of
                     Some resource \<Rightarrow> generate_value s resource c
                   | None \<Rightarrow>
                       (case first_in_chain resources s chain key of
                          Some resource \<Rightarrow> (Return (Some (value_or_factory resource)), s)
                        | None \<Rightarrow> (Return None, s)))))"

subsection \<open>Teardown\<close>

text \<open>
  \<^verbatim>\<open>self._teardown_callbacks\<close>. The attribute is the list of the context, or,
  after \<^verbatim>\<open>close\<close> has deleted it, what \<^verbatim>\<open>add_resource\<close> has bound under that
  name since. When the context has neither, Python calls \<^verbatim>\<open>__getattr__\<close>: the
  first factory with that context attribute in the chain generates a value for
  the context; failing that, the attribute of the nearest ancestor that has one is
  taken; failing that, \<^verbatim>\<open>AttributeError\<close>.
\<close>

datatype callbacks_attr =
    CallbackList ctx_id "(teardown_callback \<times> bool) list"
  | OtherValue "pyval option"

definition static_callbacks :: "state \<Rightarrow> ctx_id \<Rightarrow> callbacks_attr option" where
  "static_callbacks s x =
     (case teardown_callbacks (contexts s x) of
        Some cbs \<Rightarrow> Some (CallbackList x cbs)
      | None \<Rightarrow>
          (case attrs (contexts s x) ''_teardown_callbacks'' of
             Some v \<Rightarrow> Some (OtherValue (Some v))
           | None \<Rightarrow> None))"

definition getattr_teardown_callbacks :: "state \<Rightarrow> ctx_id \<Rightarrow> callbacks_attr result \<times> state" where
  "getattr_teardown_callbacks s c =
     (case static_callbacks s c of
        Some a \<Rightarrow> (Return a, s)
      | None \<Rightarrow>
          (case context_chain s c of
             Raise e \<Rightarrow> (Raise e, s)
           | Return chain \<Rightarrow>
               (case first_in_chain resource_factories_by_context_attr s chain
                       ''_teardown_callbacks'' of
                  Some factory \<Rightarrow>
                    (case generate_value s factory c of
                       (Raise e, s1) \<Rightarrow> (Raise e, s1)
                     | (Return v, s1) \<Rightarrow> (Return (OtherValue v), s1))
                | None \<Rightarrow>
                    (case find (\<lambda>x. static_callbacks s x \<noteq> None) (tl chain) of
                       Some x \<Rightarrow> (Return (the (static_callbacks s x)), s)
                     | None \<Rightarrow> (Raise AttributeError, s)))))"

text \<open>
  \<^verbatim>\<open>add_teardown_callback\<close> appends to the list it finds, which after \<^verbatim>\<open>close\<close> is
  the list of an ancestor; a value that is no list has no \<^verbatim>\<open>append\<close>.
\<close>

definition add_teardown_callback ::
  "state \<Rightarrow> ctx_id \<Rightarrow> teardown_callback \<Rightarrow> bool \<Rightarrow> unit result \<times> state" where
  "add_teardown_callback s c callback pass_exception =
     (case getattr_teardown_callbacks s c of
        (Raise e, s1) \<Rightarrow> (Raise e, s1)
      | (Return (OtherValue v), s1) \<Rightarrow> (Raise AttributeError, s1)
      | (Return (CallbackList x cbs), s1) \<Rightarrow>
          (Return (),
           update_context s1 x
             (\<lambda>ctx. ctx\<lparr> teardown_callbacks := Some (cbs @ [(callback, pass_exception)]) \<rparr>)))"

definition log :: "state \<Rightarrow> log_event \<Rightarrow> state" where
  "log s ev = s\<lparr> trace := trace s @ [ev] \<rparr>"

text \<open>
  The loop of \<^verbatim>\<open>close\<close> over the reversed callbacks. \<^verbatim>\<open>except Exception\<close>
  catches and logs what a callback, or the awaiting of what it returned, raises
  when that is an \<^verbatim>\<open>Exception\<close>; anything else leaves the loop.
\<close>

fun run_callbacks ::
  "state \<Rightarrow> (teardown_callback \<times> bool) list \<Rightarrow> error option \<Rightarrow> unit result \<times> state" where
  "run_callbacks s [] exc = (Return (), s)"
| "run_callbacks s ((callback, pass_exception) # rest) exc =
     (let arg = (if pass_exception then Arg exc else NoArg);
          s1 = log s (TeardownCalled (callable_name callback) arg)
      in case call_teardown callback arg of
           Returns \<Rightarrow> run_callbacks s1 rest exc
         | ReturnsAwaitable None \<Rightarrow> run_callbacks (log s1 (Awaited (callable_name callback))) rest exc
         | ReturnsAwaitable (Some e) \<Rightarrow>
             (if is_Exception e
              then run_callbacks
                     (log (log s1 (Awaited (callable_name callback)))
                        (LoggedError (callable_name callback) e)) rest exc
              else (Raise e, log s1 (Awaited (callable_name callback))))
         | Raises e \<Rightarrow>
             (if is_Exception e
              then run_callbacks (log s1 (LoggedError (callable_name callback) e)) rest exc
              else (Raise e, s1)))"

text \<open>
  \<^verbatim>\<open>close\<close>. Only \<^verbatim>\<open>close\<close> deletes the list of callbacks, after it has set the
  flag: a context that is not closed has its list.
\<close>

definition close :: "state \<Rightarrow> ctx_id \<Rightarrow> error option \<Rightarrow> unit result \<times> state" where
  "close s c exc =
     (if closed (contexts s c) then (Raise RuntimeError, s)
      else
        let s1 = update_context s c (\<lambda>ctx. ctx\<lparr> closed := True \<rparr>)
        in case teardown_callbacks (contexts s c) of
             None \<Rightarrow> (Raise AttributeError, s1)
           | Some cbs \<Rightarrow>
               run_callbacks (update_context s1 c (\<lambda>ctx. ctx\<lparr> teardown_callbacks := None \<rparr>))
                 (rev cbs) exc)"

text \<open>
  What the documentation of \<^verbatim>\<open>close\<close> and \<^verbatim>\<open>add_teardown_callback\<close> says of one
  callback, as the events it contributes: it is called, with the exception that
  ended the context if it asked for it; if it returned an awaitable, that is
  awaited; if the call or the awaiting raised, the error is logged.
\<close>

fun callback_events :: "error option \<Rightarrow> teardown_callback \<times> bool \<Rightarrow> log_event list" where
  "callback_events exc (callback, pass_exception) =
     (let arg = (if pass_exception then Arg exc else NoArg); nm = callable_name callback
      in TeardownCalled nm arg #
         (case call_teardown callback arg of
            Returns \<Rightarrow> []
          | ReturnsAwaitable None \<Rightarrow> [Awaited nm]
          | ReturnsAwaitable (Some e) \<Rightarrow> [Awaited nm, LoggedError nm e]
          | Raises e \<Rightarrow> [LoggedError nm e]))"

text \<open>Whatever the callback raises, at the call or at the awaiting, is an \<^verbatim>\<open>Exception\<close>.\<close>

fun catchable :: "error option \<Rightarrow> teardown_callback \<times> bool \<Rightarrow> bool" where
  "catchable exc (callback, pass_exception) =
     (case call_teardown callback (if pass_exception then Arg exc else NoArg) of
        Returns \<Rightarrow> True
      | ReturnsAwaitable None \<Rightarrow> True
      | ReturnsAwaitable (Some e) \<Rightarrow> is_Exception e
      | Raises e \<Rightarrow> is_Exception e)"

text \<open>What the callback raises outside \<^verbatim>\<open>Exception\<close>, at the call or at the awaiting.\<close>

fun uncaught :: "error option \<Rightarrow> teardown_callback \<times> bool \<Rightarrow> error option" where
  "uncaught exc (callback, pass_exception) =
     (case call_teardown callback (if pass_exception then Arg exc else NoArg) of
        Returns \<Rightarrow> None
      | ReturnsAwaitable None \<Rightarrow> None
      | ReturnsAwaitable (Some e) \<Rightarrow> (if is_Exception e then None else Some e)
      | Raises e \<Rightarrow> (if is_Exception e then None else Some e))"

subsection \<open>Construction\<close>

text \<open>\<^verbatim>\<open>Context(parent)\<close>: the new context takes the identity \<open>c\<close>.\<close>

definition new_context :: "state \<Rightarrow> ctx_id \<Rightarrow> ctx_id option \<Rightarrow> state" where
  "new_context s c p = update_context s c (\<lambda>_. init_context p)"

definition empty_state :: state where
  "empty_state = \<lparr> contexts = (\<lambda>_. init_context None), trace = [] \<rparr>"


subsection \<open>Waiting for a resource\<close>

text \<open>
  Modelled from the spec: \<^verbatim>\<open>wait_event\<close> and the \<^verbatim>\<open>Signal\<close> class of
  \<^verbatim>\<open>asphalt.core.event\<close> are not among the sources. By the spec, the caller is
  suspended until a "resource added" notification that satisfies the filter
  arrives from one of the signals it listens on. A suspended call is a value that
  records those signals and the filter's type and name; a notification is the
  context whose signal dispatched it and the dispatched container.
\<close>

record waiter =
  signals :: "ctx_id list"
  wanted_type :: type_name
  wanted_name :: string

datatype 'a step = Finished 'a | Suspended waiter

text \<open>\<^verbatim>\<open>lambda event: event.resource.name == name and type in event.resource.types\<close>\<close>

definition event_filter :: "type_name \<Rightarrow> string \<Rightarrow> container \<Rightarrow> bool" where
  "event_filter ty nm r = (name r = nm \<and> ty \<in> set (types r))"

definition wakes :: "waiter \<Rightarrow> ctx_id \<times> container \<Rightarrow> bool" where
  "wakes w ev = (fst ev \<in> set (signals w) \<and> event_filter (wanted_type w) (wanted_name w) (snd ev))"

text \<open>\<^verbatim>\<open>request_resource\<close> up to its \<^verbatim>\<open>await\<close>.\<close>

definition request_resource ::
  "state \<Rightarrow> ctx_id \<Rightarrow> type_name \<Rightarrow> string \<Rightarrow> pyval option result step \<times> state" where
  "request_resource s c ty nm =
     (case get_resource s c ty nm of
        (Raise e, s1) \<Rightarrow> (Finished (Raise e), s1)
      | (Return (Some v), s1) \<Rightarrow> (Finished (Return (Some v)), s1)
      | (Return None, s1) \<Rightarrow>
          (case context_chain s1 c of
             Raise e \<Rightarrow> (Finished (Raise e), s1)
           | Return chain \<Rightarrow>
               (Suspended \<lparr> signals = chain, wanted_type = ty, wanted_name = nm \<rparr>, s1)))"

text \<open>
  \<^verbatim>\<open>request_resource\<close> from its \<^verbatim>\<open>await\<close> on, when a notification is dispatched
  in state \<open>s\<close>: the call stays suspended, or wakes and returns what
  \<^verbatim>\<open>get_resource\<close> returns.
\<close>

definition request_resource_resume ::
  "state \<Rightarrow> ctx_id \<Rightarrow> waiter \<Rightarrow> ctx_id \<times> container \<Rightarrow> pyval option result step \<times> state" where
  "request_resource_resume s c w ev =
     (if wakes w ev
      then (case get_resource s c (wanted_type w) (wanted_name w) of (r, s1) \<Rightarrow> (Finished r, s1))
      else (Suspended w, s))"

section \<open>ComponentContext\<close>

text \<open>
  \<^verbatim>\<open>ComponentContext\<close> of \<^verbatim>\<open>_component.py\<close> overrides \<^verbatim>\<open>add_resource\<close> and
  \<^verbatim>\<open>add_resource_factory\<close> of a \<^verbatim>\<open>Context\<close> class whose module is not among the
  sources. The methods it calls are parameters here: \<open>super_add\<close> is the
  inherited method (called on a context, with the name, which may be \<^verbatim>\<open>None\<close>,
  the types and the keyword arguments, which are passed through unchanged), and
  \<open>parent_add\<close> is the method \<^verbatim>\<open>self._parent.add_resource_factory\<close>.
\<close>

datatype status = Preparing | Starting

record ComponentContext =
  cc_parent :: "ctx_id option"
  path :: string
  default_resource_name :: string
  status :: status

text \<open>\<^verbatim>\<open>name or self._default_resource_name\<close>\<close>

definition name_or :: "string option \<Rightarrow> string \<Rightarrow> string" where
  "name_or nm d = (if truthy nm then the nm else d)"

definition cc_add_resource ::
  "('s \<Rightarrow> ctx_id \<Rightarrow> 'v \<Rightarrow> string option \<Rightarrow> 't \<Rightarrow> 'k \<Rightarrow> unit result \<times> 's) \<Rightarrow>
   's \<Rightarrow> ctx_id \<Rightarrow> ComponentContext \<Rightarrow> 'v \<Rightarrow> string option \<Rightarrow> 't \<Rightarrow> 'k \<Rightarrow> unit result \<times> 's" where
  "cc_add_resource super_add s self cc v nm tys kw =
     (let nm1 = (if status cc = Preparing then Some ''default'' else nm)
      in case super_add s self v nm1 tys kw of
           (Raise e, s1) \<Rightarrow> (Raise e, s1)
         | (Return _, s1) \<Rightarrow>
             (if cc_parent cc \<noteq> None \<and> status cc = Starting
              then super_add s1 (the (cc_parent cc)) v
                     (Some (name_or nm1 (default_resource_name cc))) tys kw
              else (Return (), s1)))"

definition cc_add_resource_factory ::
  "('s \<Rightarrow> ctx_id \<Rightarrow> 'v \<Rightarrow> string option \<Rightarrow> 't \<Rightarrow> 'k \<Rightarrow> unit result \<times> 's) \<Rightarrow>
   ('s \<Rightarrow> ctx_id \<Rightarrow> 'v \<Rightarrow> string option \<Rightarrow> 't \<Rightarrow> 'k \<Rightarrow> unit result \<times> 's) \<Rightarrow>
   's \<Rightarrow> ctx_id \<Rightarrow> ComponentContext \<Rightarrow> 'v \<Rightarrow> string option \<Rightarrow> 't \<Rightarrow> 'k \<Rightarrow> unit result \<times> 's" where
  "cc_add_resource_factory super_add parent_add s self cc factory_callback nm tys kw =
     (let nm1 = (if status cc = Preparing then Some ''default'' else nm)
      in case super_add s self factory_callback nm1 tys kw of
           (Raise e, s1) \<Rightarrow> (Raise e, s1)
         | (Return _, s1) \<Rightarrow>
             (if cc_parent cc \<noteq> None \<and> status cc = Starting
              then parent_add s1 (the (cc_parent cc)) factory_callback nm1 tys kw
              else (Return (), s1)))"

text \<open>
  A stand-in for the inherited methods that only records, in order, the context
  and the name of each call.
\<close>

definition record_call ::
  "(ctx_id \<times> string option) list \<Rightarrow> ctx_id \<Rightarrow> 'v \<Rightarrow> string option \<Rightarrow> types_arg \<Rightarrow> unit \<Rightarrow>
   unit result \<times> (ctx_id \<times> string option) list" where
  "record_call calls c v nm tys kw = (Return (), calls @ [(c, nm)])"

section \<open>The start pass\<close>

text \<open>
  \<^verbatim>\<open>_start_component\<close>. The instantiated components form a tree: a component
  with its children by alias, in the order of the dictionary. A run of the start
  pass is the list of what happened, oldest first. The tasks that
  \<^verbatim>\<open>tg.start_soon\<close> launches run interleaved, in any order, and the task group
  is left when all of them have finished; \<^verbatim>\<open>prepare\<close> and \<^verbatim>\<open>start\<close> are
  single events, and runs in which one of them raises are not described.
\<close>

datatype component = Component "(string \<times> component) list"

datatype start_event =
    MarkStarted string
  | EnterContext string string
  | Prepare string
  | StatusStarting string
  | StartSoon string
  | Start string
  | ExitContext string

text \<open>\<^verbatim>\<open>f"{path}.{alias}" if path else alias\<close>\<close>

definition final_path :: "string \<Rightarrow> string \<Rightarrow> string" where
  "final_path pth alias = (if pth = [] then alias else pth @ ''.'' @ alias)"

text \<open>\<^verbatim>\<open>alias.split("/", 1)[1]\<close> if the alias has a slash, else \<^verbatim>\<open>"default"\<close>\<close>

definition child_resource_name :: "string \<Rightarrow> string" where
  "child_resource_name alias =
     (if CHR ''/'' \<in> set alias then tl (dropWhile (\<lambda>ch. ch \<noteq> CHR ''/'') alias) else ''default'')"

inductive start_component :: "component \<Rightarrow> string \<Rightarrow> string \<Rightarrow> start_event list \<Rightarrow> bool"
  and start_children :: "string \<Rightarrow> (string \<times> component) list \<Rightarrow> start_event list \<Rightarrow> bool" where
  run_component:
    "start_children pth cs m \<Longrightarrow>
     start_component (Component cs) pth drn
       ([MarkStarted pth, EnterContext pth drn, Prepare pth, StatusStarting pth]
        @ map (\<lambda>ac. StartSoon (final_path pth (fst ac))) cs
        @ m @ [Start pth, ExitContext pth])"
| no_child: "start_children pth [] []"
| more_children:
    "start_component ch (final_path pth alias) (child_resource_name alias) t \<Longrightarrow>
     start_children pth cs u \<Longrightarrow> m \<in> shuffles t u \<Longrightarrow>
     start_children pth ((alias, ch) # cs) m"

section \<open>Histories\<close>

text \<open>
  A state is later than another when operations of contexts lead from one to the
  other. A new context takes an identity that no context has yet, above that of
  its parent.
\<close>

inductive later :: "state \<Rightarrow> state \<Rightarrow> bool" where
  later_refl: "later s s"
| later_add_resource:
    "later s s1 \<Longrightarrow> later s (snd (add_resource_in loop s1 c v nm attr tys))"
| later_add_resource_factory:
    "later s s1 \<Longrightarrow> later s (snd (add_resource_factory s1 c f tys nm attr))"
| later_get_resource:
    "later s s1 \<Longrightarrow> later s (snd (get_resource s1 c ty nm))"
| later_add_teardown_callback:
    "later s s1 \<Longrightarrow> later s (snd (add_teardown_callback s1 c cb pass_exception))"
| later_close:
    "later s s1 \<Longrightarrow> later s (snd (close s1 c exc))"
| later_new_context:
    "later s s1 \<Longrightarrow> contexts s1 c = init_context None \<Longrightarrow> (\<forall>q. p = Some q \<longrightarrow> q < c) \<Longrightarrow>
     later s (new_context s1 c p)"

section \<open>Example states\<close>

definition make_session :: callable where
  "make_session = Callable ''make_session'' False (\<lambda>clock c. Return (Some (ObjV ''Session'' clock)))"

definition one_context :: state where
  "one_context = new_context empty_state 0 None"

definition three_contexts :: state where
  "three_contexts = new_context (new_context (new_context empty_state 0 None) 1 (Some 0)) 2 (Some 1)"

text \<open>
  A root that holds an integer, a string and a session, its child that holds a
  factory of sessions, and the child's child that holds an integer of its own.
\<close>

definition tiers_state :: state where
  "tiers_state =
     (let s1 = snd (add_resource three_contexts 0 (Some (IntV 10)) ''default'' None (TypeSeq []));
          s2 = snd (add_resource s1 0 (Some (StrV ''root'')) ''default'' None (TypeSeq []));
          s3 = snd (add_resource s2 0 (Some (ObjV ''Session'' 100)) ''default'' None (TypeSeq []));
          s4 = snd (add_resource_factory s3 1 make_session (OneType ''Session'') ''default'' None)
      in snd (add_resource s4 2 (Some (IntV 3)) ''default'' None (OneType ''int'')))"

text \<open>The same, with a second child of the context that holds the factory.\<close>

definition fork_state :: state where
  "fork_state = new_context tiers_state 3 (Some 1)"

text \<open>Then the first child's child requests a session, and then the second child.\<close>

definition fork_state_1 :: state where
  "fork_state_1 = snd (get_resource fork_state 2 ''Session'' ''default'')"

definition fork_state_2 :: state where
  "fork_state_2 = snd (get_resource fork_state_1 3 ''Session'' ''default'')"

text \<open>Teardown callbacks: one that returns, one that returns an awaitable and takes
  the exception, one that raises an \<^verbatim>\<open>Exception\<close>, one that raises a
  \<^verbatim>\<open>KeyboardInterrupt\<close>.\<close>

definition stop_a :: teardown_callback where
  "stop_a = TeardownCallback ''stop_a'' (\<lambda>_. Returns)"

definition stop_b :: teardown_callback where
  "stop_b = TeardownCallback ''stop_b'' (\<lambda>_. ReturnsAwaitable None)"

definition stop_c :: teardown_callback where
  "stop_c = TeardownCallback ''stop_c'' (\<lambda>_. Raises (OtherException ''boom''))"

definition stop_interrupted :: teardown_callback where
  "stop_interrupted = TeardownCallback ''stop_interrupted'' (\<lambda>_. Raises (NonException ''KeyboardInterrupt''))"

definition teardown_state :: state where
  "teardown_state =
     (let s1 = snd (add_teardown_callback one_context 0 stop_a False);
          s2 = snd (add_teardown_callback s1 0 stop_b True)
      in snd (add_teardown_callback s2 0 stop_c False))"

definition interrupt_state :: state where
  "interrupt_state =
     (let s1 = snd (add_teardown_callback one_context 0 stop_a False)
      in snd (add_teardown_callback s1 0 stop_interrupted False))"

text \<open>The interrupted callback between an older and a newer one.\<close>

definition mixed_state :: state where
  "mixed_state =
     (let s1 = snd (add_teardown_callback one_context 0 stop_a False);
          s2 = snd (add_teardown_callback s1 0 stop_interrupted False)
      in snd (add_teardown_callback s2 0 stop_c False))"

definition closed_state :: state where
  "closed_state = snd (close one_context 0 None)"

definition alias_factory_state :: state where
  "alias_factory_state =
     snd (add_resource_factory one_context 0 make_session (OneType ''Session'') ''default''
            (Some ''session''))"

definition alias_resource_state :: state where
  "alias_resource_state =
     snd (add_resource one_context 0 (Some (IntV 1)) ''default'' (Some ''session'') (TypeSeq []))"

text \<open>The root then publishes a mailer.\<close>

definition mailer_state :: state where
  "mailer_state =
     snd (add_resource tiers_state 0 (Some (ObjV ''Mailer'' 7)) ''default'' None (TypeSeq []))"

text \<open>A factory whose callback returns \<^verbatim>\<open>None\<close>, registered on a root.\<close>

definition null_factory :: callable where
  "null_factory = Callable ''null_factory'' False (\<lambda>clock c. Return None)"

definition null_factory_state :: state where
  "null_factory_state =
     snd (add_resource_factory one_context 0 null_factory (OneType ''Mailer'') ''default'' None)"

text \<open>A component context in each status, below the context 0.\<close>

definition preparing_context :: ComponentContext where
  "preparing_context =
     \<lparr> cc_parent = Some 0, path = ''web/bar'', default_resource_name = ''bar'', status = Preparing \<rparr>"

definition starting_context :: ComponentContext where
  "starting_context =
     \<lparr> cc_parent = Some 0, path = ''web/bar'', default_resource_name = ''bar'', status = Starting \<rparr>"

definition starting_child :: ComponentContext where
  "starting_child =
     \<lparr> cc_parent = Some 1, path = ''web/bar.sub'', default_resource_name = ''default'',
       status = Starting \<rparr>"

text \<open>A root component with two leaves, and the run of a leaf.\<close>

definition two_children :: component where
  "two_children = Component [(''a'', Component []), (''b/mail'', Component [])]"

definition leaf_run :: "string \<Rightarrow> string \<Rightarrow> start_event list" where
  "leaf_run pth drn =
     [MarkStarted pth, EnterContext pth drn, Prepare pth, StatusStarting pth, Start pth,
      ExitContext pth]"

lemmas example_defs = make_session_def one_context_def three_contexts_def tiers_state_def
  fork_state_def fork_state_1_def fork_state_2_def stop_a_def stop_b_def stop_c_def
  stop_interrupted_def teardown_state_def interrupt_state_def mixed_state_def mailer_state_def
  preparing_context_def starting_context_def starting_child_def two_children_def leaf_run_def
  null_factory_def null_factory_state_def
  closed_state_def alias_factory_state_def alias_resource_state_def

lemmas model_defs = add_resource_def add_resource_in_def add_resource_factory_def
  generate_value_def get_resource_def close_def add_teardown_callback_def
  getattr_teardown_callbacks_def static_callbacks_def object_members_def new_context_def empty_state_def init_context_def
  update_context_def log_def resource_name_ok_def is_word_char_def has_static_attr_def
  class_members_def instance_fields_def listed_types_def Let_def

section \<open>Basic facts\<close>

lemma context_chain_root:
  "attrs (contexts s c) ''_parent'' = None \<Longrightarrow> parent (contexts s c) = None \<Longrightarrow>
   context_chain s c = Return [c]"
  by (subst context_chain.simps) simp

lemma context_chain_child:
  "attrs (contexts s c) ''_parent'' = None \<Longrightarrow> parent (contexts s c) = Some p \<Longrightarrow> p < c \<Longrightarrow>
   context_chain s c = (case context_chain s p of Raise e \<Rightarrow> Raise e | Return xs \<Rightarrow> Return (c # xs))"
  by (subst context_chain.simps) simp

lemma name_default_ok: "resource_name_ok ''default''"
  by (simp add: resource_name_ok_def is_word_char_def)

lemma bind_attr_fields [simp]:
  "resources (bind_attr attr v ctx) = resources ctx"
  "resource_factories (bind_attr attr v ctx) = resource_factories ctx"
  "resource_factories_by_context_attr (bind_attr attr v ctx) = resource_factories_by_context_attr ctx"
  "parent (bind_attr attr v ctx) = parent ctx"
  "dispatched (bind_attr attr v ctx) = dispatched ctx"
  by (cases attr; simp)+

lemma store_under_apply:
  "store_under ts nm r m k = (if k \<in> (\<lambda>t. (t, nm)) ` set ts then Some r else m k)"
  by (induction ts arbitrary: m) auto

lemma list_ex_resources:
  "list_ex (\<lambda>t. m (t, nm) \<noteq> None) ts \<longleftrightarrow> (\<exists>t\<in>set ts. m (t, nm) \<noteq> None)"
  by (simp add: list_ex_iff)

lemma first_in_chain_nearest:
  "(\<forall>x\<in>set pre. table (contexts s x) key = None) \<Longrightarrow> table (contexts s d) key = Some r \<Longrightarrow>
   first_in_chain table s (pre @ d # post) key = Some r"
  by (induction pre) auto

lemma first_in_chain_none:
  "(\<forall>x\<in>set xs. table (contexts s x) key = None) \<Longrightarrow> first_in_chain table s xs key = None"
  by (induction xs) auto

section \<open>Failure of \<^verbatim>\<open>add_resource\<close> changes nothing\<close>

text \<open>
  After the four checks, \<^verbatim>\<open>add_resource\<close> stores the resource and binds the
  attribute; with no event loop the dispatch then raises \<^verbatim>\<open>RuntimeError\<close>, and
  the resource stays stored.
\<close>

lemma add_resource_in_after_checks:
  assumes "v = Some val" and "resource_name_ok nm"
    and "\<not> (truthy attr \<and> has_static_attr (contexts s c) (the attr))"
    and "\<forall>t\<in>set (resolve_types tys v). resources (contexts s c) (t, nm) = None"
  shows "fst (add_resource_in loop s c v nm attr tys)
           = (if loop
              then Return \<lparr> value_or_factory = val, types = resolve_types tys v, name = nm,
                            context_attr = attr, is_factory = False \<rparr>
              else Raise RuntimeError)"
    and "t \<in> set (resolve_types tys v) \<Longrightarrow>
         resources (contexts (snd (add_resource_in loop s c v nm attr tys)) c) (t, nm)
           = Some \<lparr> value_or_factory = val, types = resolve_types tys v, name = nm,
                    context_attr = attr, is_factory = False \<rparr>"
  using assms
  by (auto simp: add_resource_in_def Let_def list_ex_iff update_context_def store_under_apply)

text \<open>
  Claim C10. Whether an event loop is running or not: when the value is \<^verbatim>\<open>None\<close>,
  the name is ill-formed, the context attribute is already bound, or one of the
  requested types already has a resource of that name on the context,
  \<^verbatim>\<open>add_resource\<close> raises (\<^verbatim>\<open>ValueError\<close> for the first two,
  \<^verbatim>\<open>ResourceConflict\<close> for the others) and the state is the one it started from:
  no entry in the resource table, no attribute bound, no \<^verbatim>\<open>resource_added\<close>
  event dispatched. Conversely, \<^verbatim>\<open>add_resource\<close> raises one of these two errors
  only in one of these four cases, hence with the state unchanged: the checks
  precede every mutation.
\<close>

theorem add_resource_atomic_on_failure:
  "(v = None \<longrightarrow> add_resource_in loop s c v nm attr tys = (Raise ValueError, s))
   \<and> (v \<noteq> None \<and> \<not> resource_name_ok nm
       \<longrightarrow> add_resource_in loop s c v nm attr tys = (Raise ValueError, s))
   \<and> (v \<noteq> None \<and> resource_name_ok nm
       \<and> truthy attr \<and> has_static_attr (contexts s c) (the attr)
       \<longrightarrow> add_resource_in loop s c v nm attr tys = (Raise ResourceConflict, s))
   \<and> (v \<noteq> None \<and> resource_name_ok nm
       \<and> (\<exists>t\<in>set (resolve_types tys v). resources (contexts s c) (t, nm) \<noteq> None)
       \<longrightarrow> add_resource_in loop s c v nm attr tys = (Raise ResourceConflict, s))
   \<and> (fst (add_resource_in loop s c v nm attr tys) = Raise ValueError
       \<or> fst (add_resource_in loop s c v nm attr tys) = Raise ResourceConflict
       \<longrightarrow> snd (add_resource_in loop s c v nm attr tys) = s
          \<and> (v = None \<or> \<not> resource_name_ok nm
              \<or> (truthy attr \<and> has_static_attr (contexts s c) (the attr))
              \<or> (\<exists>t\<in>set (resolve_types tys v). resources (contexts s c) (t, nm) \<noteq> None)))"
  by (auto simp: add_resource_in_def Let_def list_ex_iff split: option.splits if_splits)

theorem add_resource_atomic_on_failure_witness:
  "add_resource_in True tiers_state 2 None ''default'' None (TypeSeq []) = (Raise ValueError, tiers_state)
   \<and> add_resource_in False tiers_state 2 (Some (IntV 4)) ''no name'' None (TypeSeq [])
       = (Raise ValueError, tiers_state)
   \<and> add_resource_in True tiers_state 2 (Some (IntV 4)) ''other'' (Some ''close'') (TypeSeq [])
       = (Raise ResourceConflict, tiers_state)
   \<and> add_resource_in False tiers_state 2 (Some (IntV 4)) ''default'' (Some ''num'')
         (TypeSeq [''float'', ''int'']) = (Raise ResourceConflict, tiers_state)
   \<and> snd (add_resource_in True tiers_state 2 (Some (IntV 4)) ''default'' (Some ''num'')
         (TypeSeq [''float'', ''int''])) = tiers_state"
proof -
  have bad_name: "\<not> resource_name_ok ''no name''" and good_name: "resource_name_ok ''other''"
    and good_default: "resource_name_ok ''default''"
    by (simp_all add: resource_name_ok_def is_word_char_def)
  have bound: "truthy (Some ''close'') \<and> has_static_attr (contexts tiers_state 2) (the (Some ''close''))"
    by (simp add: has_static_attr_def class_members_def)
  have dup: "\<exists>t\<in>set (resolve_types (TypeSeq [''float'', ''int'']) (Some (IntV 4))).
      resources (contexts tiers_state 2) (t, ''default'') \<noteq> None"
    by (simp add: example_defs model_defs)
  have raised: "fst (add_resource_in True tiers_state 2 (Some (IntV 4)) ''default'' (Some ''num'')
          (TypeSeq [''float'', ''int''])) = Raise ResourceConflict"
    by (simp add: example_defs model_defs)
  note inst = add_resource_atomic_on_failure [where s = tiers_state and c = 2]
  from inst [where v = None and loop = True and nm = "''default''" and attr = None
               and tys = "TypeSeq []", THEN conjunct1]
  have "add_resource_in True tiers_state 2 None ''default'' None (TypeSeq [])
      = (Raise ValueError, tiers_state)"
    by simp
  moreover
  from inst [where v = "Some (IntV 4)" and loop = False and nm = "''no name''" and attr = None
               and tys = "TypeSeq []", THEN conjunct2, THEN conjunct1] bad_name
  have "add_resource_in False tiers_state 2 (Some (IntV 4)) ''no name'' None (TypeSeq [])
       = (Raise ValueError, tiers_state)"
    by simp
  moreover
  from inst [where v = "Some (IntV 4)" and loop = True and nm = "''other''"
               and attr = "Some ''close''" and tys = "TypeSeq []",
             THEN conjunct2, THEN conjunct2, THEN conjunct1] good_name bound
  have "add_resource_in True tiers_state 2 (Some (IntV 4)) ''other'' (Some ''close'') (TypeSeq [])
       = (Raise ResourceConflict, tiers_state)"
    by simp
  moreover
  from inst [where v = "Some (IntV 4)" and loop = False and nm = "''default''"
               and attr = "Some ''num''" and tys = "TypeSeq [''float'', ''int'']",
             THEN conjunct2, THEN conjunct2, THEN conjunct2, THEN conjunct1] good_default dup
  have "add_resource_in False tiers_state 2 (Some (IntV 4)) ''default'' (Some ''num'')
         (TypeSeq [''float'', ''int'']) = (Raise ResourceConflict, tiers_state)"
    by blast
  moreover
  from inst [where v = "Some (IntV 4)" and loop = True and nm = "''default''"
               and attr = "Some ''num''" and tys = "TypeSeq [''float'', ''int'']",
             THEN conjunct2, THEN conjunct2, THEN conjunct2, THEN conjunct2] raised
  have "snd (add_resource_in True tiers_state 2 (Some (IntV 4)) ''default'' (Some ''num'')
         (TypeSeq [''float'', ''int''])) = tiers_state"
    by simp
  ultimately show ?thesis by blast
qed

section \<open>Duplicates conflict, children shadow\<close>

text \<open>
  Claim C7. On a context that holds a resource under \<open>(T, n)\<close>, adding any value
  under types that include \<open>T\<close> and the name \<open>n\<close> raises \<^verbatim>\<open>ResourceConflict\<close> and
  changes nothing. On a child of that context which has no resource of its own
  under the requested types and name (and no clash of context attribute), the
  same addition succeeds; the child's lookup of \<open>(T, n)\<close> then returns the
  child's value, and the parent keeps its resource.
\<close>


theorem duplicate_conflicts_child_shadows:
  "(resources (contexts s c) (T, n) = Some r \<and> resource_name_ok n
      \<and> T \<in> set (resolve_types tys (Some v))
     \<longrightarrow> add_resource s c (Some v) n attr tys = (Raise ResourceConflict, s))
   \<and> (parent (contexts s ch) = Some c \<and> ch \<noteq> c \<and> resources (contexts s c) (T, n) = Some r
      \<and> resource_name_ok n \<and> T \<in> set (resolve_types tys (Some v))
      \<and> \<not> (truthy attr \<and> has_static_attr (contexts s ch) (the attr))
      \<and> (\<forall>t\<in>set (resolve_types tys (Some v)). resources (contexts s ch) (t, n) = None)
     \<longrightarrow> (\<exists>r' s'. add_resource s ch (Some v) n attr tys = (Return r', s')
            \<and> get_resource s' ch T n = (Return (Some v), s')
            \<and> resources (contexts s' c) (T, n) = Some r))"
proof (intro conjI impI)
  assume "resources (contexts s c) (T, n) = Some r \<and> resource_name_ok n
      \<and> T \<in> set (resolve_types tys (Some v))"
  then show "add_resource s c (Some v) n attr tys = (Raise ResourceConflict, s)"
    by (auto simp: add_resource_def add_resource_in_def Let_def list_ex_iff)
next
  assume a: "parent (contexts s ch) = Some c \<and> ch \<noteq> c \<and> resources (contexts s c) (T, n) = Some r
      \<and> resource_name_ok n \<and> T \<in> set (resolve_types tys (Some v))
      \<and> \<not> (truthy attr \<and> has_static_attr (contexts s ch) (the attr))
      \<and> (\<forall>t\<in>set (resolve_types tys (Some v)). resources (contexts s ch) (t, n) = None)"
  let ?ts = "resolve_types tys (Some v)"
  let ?r = "\<lparr> value_or_factory = v, types = ?ts, name = n, context_attr = attr, is_factory = False \<rparr>"
  let ?s' = "snd (add_resource s ch (Some v) n attr tys)"
  from a have ok: "add_resource s ch (Some v) n attr tys = (Return ?r, ?s')"
    by (auto simp: add_resource_def add_resource_in_def Let_def list_ex_iff)
  from a have stored: "resources (contexts ?s' ch) (T, n) = Some ?r"
    by (cases attr) (auto simp: add_resource_def add_resource_in_def Let_def list_ex_iff update_context_def store_under_apply)
  from a have kept: "resources (contexts ?s' c) (T, n) = Some r"
    by (auto simp: add_resource_def add_resource_in_def Let_def list_ex_iff update_context_def)
  from stored have "get_resource ?s' ch T n = (Return (Some v), ?s')"
    by (simp add: get_resource_def)
  with ok kept show "\<exists>r' s'. add_resource s ch (Some v) n attr tys = (Return r', s')
            \<and> get_resource s' ch T n = (Return (Some v), s')
            \<and> resources (contexts s' c) (T, n) = Some r"
    by blast
qed


theorem duplicate_conflicts_child_shadows_witness:
  "add_resource tiers_state 2 (Some (IntV 4)) ''default'' None (OneType ''int'')
     = (Raise ResourceConflict, tiers_state)
   \<and> (\<exists>r' s'. add_resource tiers_state 1 (Some (StrV ''mid'')) ''default'' None (TypeSeq [])
                 = (Return r', s')
        \<and> get_resource s' 1 ''str'' ''default'' = (Return (Some (StrV ''mid'')), s')
        \<and> resources (contexts s' 0) (''str'', ''default'')
            = Some \<lparr> value_or_factory = StrV ''root'', types = [''str''], name = ''default'',
                     context_attr = None, is_factory = False \<rparr>)"
proof -
  have own: "resources (contexts tiers_state 2) (''int'', ''default'')
      = Some \<lparr> value_or_factory = IntV 3, types = [''int''], name = ''default'',
               context_attr = None, is_factory = False \<rparr>"
    by (simp add: example_defs model_defs)
  have root: "resources (contexts tiers_state 0) (''str'', ''default'')
      = Some \<lparr> value_or_factory = StrV ''root'', types = [''str''], name = ''default'',
               context_attr = None, is_factory = False \<rparr>"
    by (simp add: example_defs model_defs)
  have child: "parent (contexts tiers_state 1) = Some 0"
    by (simp add: example_defs model_defs)
  have free: "\<forall>t\<in>set (resolve_types (TypeSeq []) (Some (StrV ''mid''))).
      resources (contexts tiers_state 1) (t, ''default'') = None"
    by (simp add: example_defs model_defs)
  note thm1 = duplicate_conflicts_child_shadows
      [where s = tiers_state and c = 2 and T = "''int''" and n = "''default''"
         and tys = "OneType ''int''" and v = "IntV 4" and attr = None, THEN conjunct1]
  note thm2 = duplicate_conflicts_child_shadows
      [where s = tiers_state and c = 0 and ch = 1 and T = "''str''" and n = "''default''"
         and tys = "TypeSeq []" and v = "StrV ''mid''" and attr = None, THEN conjunct2]
  from thm1 own name_default_ok
  have "add_resource tiers_state 2 (Some (IntV 4)) ''default'' None (OneType ''int'')
     = (Raise ResourceConflict, tiers_state)"
    by simp
  moreover from thm2 root child free name_default_ok
  have "\<exists>r' s'. add_resource tiers_state 1 (Some (StrV ''mid'')) ''default'' None (TypeSeq [])
                 = (Return r', s')
        \<and> get_resource s' 1 ''str'' ''default'' = (Return (Some (StrV ''mid'')), s')
        \<and> resources (contexts s' 0) (''str'', ''default'')
            = Some \<lparr> value_or_factory = StrV ''root'', types = [''str''], name = ''default'',
                     context_attr = None, is_factory = False \<rparr>"
    by simp
  ultimately show ?thesis by blast
qed

section \<open>Adding to a closed context\<close>

text \<open>
  Claim C3 says that \<^verbatim>\<open>add_resource\<close> and \<^verbatim>\<open>add_resource_factory\<close> fail on a
  closed context. Neither calls \<^verbatim>\<open>_check_closed\<close>: on the context that was just
  closed, both return a container and store it.
\<close>


theorem add_after_close_succeeds:
  "closed (contexts closed_state 0)
   \<and> fst (add_resource closed_state 0 (Some (IntV 1)) ''default'' None (TypeSeq []))
       = Return \<lparr> value_or_factory = IntV 1, types = [''int''], name = ''default'',
                  context_attr = None, is_factory = False \<rparr>
   \<and> resources (contexts (snd (add_resource closed_state 0 (Some (IntV 1)) ''default'' None (TypeSeq []))) 0)
         (''int'', ''default'')
       = Some \<lparr> value_or_factory = IntV 1, types = [''int''], name = ''default'',
                context_attr = None, is_factory = False \<rparr>
   \<and> fst (add_resource_factory closed_state 0 make_session (OneType ''Session'') ''default'' None)
       = Return \<lparr> value_or_factory = fun_value make_session, types = [''Session''], name = ''default'',
                  context_attr = None, is_factory = True \<rparr>
   \<and> resource_factories
         (contexts (snd (add_resource_factory closed_state 0 make_session (OneType ''Session'')
                           ''default'' None)) 0) (''Session'', ''default'')
       = Some \<lparr> value_or_factory = fun_value make_session, types = [''Session''], name = ''default'',
                context_attr = None, is_factory = True \<rparr>"
  by (simp add: example_defs model_defs)

section \<open>Rebinding a context attribute\<close>

text \<open>
  Claim C9, as stated, fails across the two kinds of binding: \<^verbatim>\<open>add_resource\<close>
  looks for the name among the attributes of the context and
  \<^verbatim>\<open>add_resource_factory\<close> among the factory aliases. After a factory was
  registered with the alias \<^verbatim>\<open>session\<close>, a resource is added with the context
  attribute \<^verbatim>\<open>session\<close> on the same context (as \<^verbatim>\<open>generate_value\<close> itself does
  when the factory is requested there).
\<close>


theorem rebinding_across_kinds_counterexample:
  "resource_factories_by_context_attr (contexts alias_factory_state 0) ''session''
     = Some \<lparr> value_or_factory = fun_value make_session, types = [''Session''], name = ''default'',
              context_attr = Some ''session'', is_factory = True \<rparr>
   \<and> fst (add_resource alias_factory_state 0 (Some (IntV 1)) ''default'' (Some ''session'') (TypeSeq []))
     = Return \<lparr> value_or_factory = IntV 1, types = [''int''], name = ''default'',
                context_attr = Some ''session'', is_factory = False \<rparr>
   \<and> attrs (contexts (snd (add_resource alias_factory_state 0 (Some (IntV 1)) ''default''
                              (Some ''session'') (TypeSeq []))) 0) ''session'' = Some (IntV 1)"
  by (simp add: example_defs model_defs)

lemma add_resource_in_attrs_kept:
  "attrs (contexts s c) a = Some x \<Longrightarrow>
   attrs (contexts (snd (add_resource_in loop s c' v nm attr tys)) c) a = Some x"
  by (cases attr) (auto simp: add_resource_in_def Let_def update_context_def has_static_attr_def
      split: option.splits)

lemma add_resource_in_aliases_kept:
  "resource_factories_by_context_attr (contexts (snd (add_resource_in loop s c' v nm attr tys)) c)
     = resource_factories_by_context_attr (contexts s c)"
  by (auto simp: add_resource_in_def Let_def update_context_def split: option.splits)

lemma add_resource_attrs_kept:
  "attrs (contexts s c) a = Some x \<Longrightarrow>
   attrs (contexts (snd (add_resource s c' v nm attr tys)) c) a = Some x"
  by (simp add: add_resource_def add_resource_in_attrs_kept)

lemma add_resource_factory_aliases_kept:
  "resource_factories_by_context_attr (contexts s c) a = Some r \<Longrightarrow>
   resource_factories_by_context_attr (contexts (snd (add_resource s c' v nm attr tys)) c) a = Some r"
  by (simp add: add_resource_def add_resource_in_aliases_kept)

lemma add_resource_factory_attrs_kept:
  "attrs (contexts (snd (add_resource_factory s c' f tys nm attr)) c) = attrs (contexts s c)"
  by (auto simp: add_resource_factory_def Let_def update_context_def split: option.splits)

lemma add_resource_factory_aliases_kept2:
  "resource_factories_by_context_attr (contexts s c) a = Some r \<Longrightarrow>
   resource_factories_by_context_attr (contexts (snd (add_resource_factory s c' f tys nm attr)) c) a
     = Some r"
  by (cases attr) (auto simp: add_resource_factory_def Let_def update_context_def split: option.splits)

lemma generate_value_snd:
  "snd (generate_value s r c) = s
   \<or> (\<exists>v. snd (generate_value s r c)
        = snd (add_resource (log s (FactoryCalled (factory_name (value_or_factory r)) c)) c v
                 (name r) (context_attr r) (TypeSeq (types r))))
   \<or> snd (generate_value s r c) = log s (FactoryCalled (factory_name (value_or_factory r)) c)"
proof (cases "is_factory r")
  case False
  then show ?thesis by (simp add: generate_value_def)
next
  case True
  show ?thesis
  proof (cases "call_factory (value_or_factory r) (length (trace s)) c")
    case (Raise e)
    with True show ?thesis by (simp add: generate_value_def Let_def log_def)
  next
    case (Return v)
    with True have "snd (generate_value s r c)
        = snd (add_resource (log s (FactoryCalled (factory_name (value_or_factory r)) c)) c v
                 (name r) (context_attr r) (TypeSeq (types r)))"
      by (simp add: generate_value_def Let_def log_def split: prod.splits result.splits)
    then show ?thesis by blast
  qed
qed

lemma get_resource_snd:
  "snd (get_resource s c ty nm) = s
   \<or> (\<exists>r. snd (get_resource s c ty nm) = snd (generate_value s r c))"
  by (auto simp: get_resource_def Let_def split: option.splits result.splits)

lemma log_contexts [simp]: "contexts (log s ev) = contexts s"
  by (simp add: log_def)

lemma run_callbacks_contexts: "contexts (snd (run_callbacks s cbs exc)) = contexts s"
  by (induction s cbs exc rule: run_callbacks.induct)
     (auto simp: Let_def split: cb_result.splits option.splits)

lemma close_fields_kept:
  "attrs (contexts (snd (close s c' exc)) c) = attrs (contexts s c)
   \<and> resource_factories_by_context_attr (contexts (snd (close s c' exc)) c)
       = resource_factories_by_context_attr (contexts s c)"
  by (auto simp: close_def Let_def update_context_def run_callbacks_contexts split: option.splits)

lemma getattr_teardown_callbacks_snd:
  "snd (getattr_teardown_callbacks s c) = s
   \<or> (\<exists>f. snd (getattr_teardown_callbacks s c) = snd (generate_value s f c))"
  by (auto simp: getattr_teardown_callbacks_def split: option.splits result.splits prod.splits)
     (metis snd_conv)+

lemma getattr_teardown_callbacks_list:
  "getattr_teardown_callbacks s c = (Return (CallbackList x cbs), s1) \<Longrightarrow> s1 = s"
  by (auto simp: getattr_teardown_callbacks_def split: option.splits result.splits prod.splits)

lemma add_teardown_callback_snd:
  "snd (add_teardown_callback s c cb p) = s
   \<or> (\<exists>f. snd (add_teardown_callback s c cb p) = snd (generate_value s f c))
   \<or> (\<exists>x cbs. snd (add_teardown_callback s c cb p)
         = update_context s x (\<lambda>ctx. ctx\<lparr> teardown_callbacks := Some cbs \<rparr>))"
proof (cases "getattr_teardown_callbacks s c")
  case (Pair res s1)
  show ?thesis
  proof (cases res)
    case (Raise e)
    with Pair getattr_teardown_callbacks_snd [of s c] show ?thesis
      by (auto simp: add_teardown_callback_def)
  next
    case (Return a)
    show ?thesis
    proof (cases a)
      case (CallbackList x cbs)
      with Return Pair getattr_teardown_callbacks_list [of s c x cbs s1] show ?thesis
        by (auto simp: add_teardown_callback_def)
    next
      case (OtherValue v)
      with Return Pair getattr_teardown_callbacks_snd [of s c] show ?thesis
        by (auto simp: add_teardown_callback_def)
    qed
  qed
qed

lemma get_resource_bindings_kept:
  "(attrs (contexts s c) a = Some x \<longrightarrow> attrs (contexts (snd (get_resource s c' ty nm)) c) a = Some x)
   \<and> (resource_factories_by_context_attr (contexts s c) a = Some r \<longrightarrow>
       resource_factories_by_context_attr (contexts (snd (get_resource s c' ty nm)) c) a = Some r)"
  using get_resource_snd [of s c' ty nm]
proof (elim disjE exE)
  fix f assume g: "snd (get_resource s c' ty nm) = snd (generate_value s f c')"
  from generate_value_snd [of s f c'] show ?thesis
    unfolding g
    by (elim disjE exE) (simp_all add: add_resource_attrs_kept add_resource_factory_aliases_kept)
qed simp

lemma generate_value_bindings_kept:
  "(attrs (contexts s c) a = Some x \<longrightarrow> attrs (contexts (snd (generate_value s f c')) c) a = Some x)
   \<and> (resource_factories_by_context_attr (contexts s c) a = Some r \<longrightarrow>
       resource_factories_by_context_attr (contexts (snd (generate_value s f c')) c) a = Some r)"
  using generate_value_snd [of s f c']
  by (elim disjE exE) (simp_all add: add_resource_attrs_kept add_resource_factory_aliases_kept)

lemma add_teardown_callback_bindings_kept:
  "(attrs (contexts s c) a = Some x \<longrightarrow>
      attrs (contexts (snd (add_teardown_callback s c' cb p)) c) a = Some x)
   \<and> (resource_factories_by_context_attr (contexts s c) a = Some r \<longrightarrow>
       resource_factories_by_context_attr (contexts (snd (add_teardown_callback s c' cb p)) c) a
         = Some r)"
  using add_teardown_callback_snd [of s c' cb p]
proof (elim disjE exE)
  fix f assume "snd (add_teardown_callback s c' cb p) = snd (generate_value s f c')"
  then show ?thesis by (simp add: generate_value_bindings_kept)
qed (simp_all add: update_context_def)

lemma bindings_persist:
  "later s s' \<Longrightarrow>
   (attrs (contexts s c) a = Some x \<longrightarrow> attrs (contexts s' c) a = Some x)
   \<and> (resource_factories_by_context_attr (contexts s c) a = Some r \<longrightarrow>
       resource_factories_by_context_attr (contexts s' c) a = Some r)"
proof (induction rule: later.induct)
  case (later_new_context s s1 c' p)
  then show ?case
    by (auto simp: new_context_def update_context_def init_context_def)
qed (simp_all add: add_resource_in_attrs_kept add_resource_in_aliases_kept
       add_resource_factory_attrs_kept add_resource_factory_aliases_kept2
       get_resource_bindings_kept close_fields_kept add_teardown_callback_bindings_kept)

lemma add_resource_binds_attr:
  "add_resource s c v nm (Some a) tys = (Return r, s') \<Longrightarrow> a \<noteq> [] \<Longrightarrow>
   attrs (contexts s' c) a = v"
  by (auto simp: add_resource_def add_resource_in_def Let_def update_context_def split: option.splits if_splits)

lemma add_resource_factory_binds_alias:
  "add_resource_factory s c f tys nm (Some a) = (Return r, s') \<Longrightarrow> a \<noteq> [] \<Longrightarrow>
   resource_factories_by_context_attr (contexts s' c) a = Some r"
  by (auto simp: add_resource_factory_def Let_def update_context_def split: option.splits if_splits)

lemma add_resource_bound_attr_raises:
  assumes "attrs (contexts s c) a \<noteq> None" "a \<noteq> []"
  shows "(\<exists>e. add_resource s c v nm (Some a) tys = (Raise e, s))
         \<and> (v \<noteq> None \<and> resource_name_ok nm \<longrightarrow>
              add_resource s c v nm (Some a) tys = (Raise ResourceConflict, s))"
  using assms
  by (auto simp: add_resource_def add_resource_in_def Let_def has_static_attr_def split: option.splits)

lemma add_resource_factory_bound_alias_raises:
  assumes "resource_factories_by_context_attr (contexts s c) a \<noteq> None"
  shows "(\<exists>e. add_resource_factory s c f tys nm (Some a) = (Raise e, s))
         \<and> (resource_name_ok nm \<and> \<not> iscoroutinefunction f \<and> listed_types tys \<noteq> [] \<longrightarrow>
              add_resource_factory s c f tys nm (Some a) = (Raise ResourceConflict, s))"
  using assms
  by (auto simp: add_resource_factory_def Let_def)

text \<open>
  Claim C9, amended. Once \<^verbatim>\<open>add_resource\<close> has bound the attribute \<open>a\<close> on a
  context, the binding stays in every later state, and there every
  \<^verbatim>\<open>add_resource\<close> with the context attribute \<open>a\<close> on that context raises and
  changes nothing; it raises \<^verbatim>\<open>ResourceConflict\<close> when its value is not \<^verbatim>\<open>None\<close>
  and its name is well-formed. Once \<^verbatim>\<open>add_resource_factory\<close> has bound the
  alias \<open>a\<close>, the alias stays, and every later \<^verbatim>\<open>add_resource_factory\<close> with the
  alias \<open>a\<close> on that context raises and changes nothing; it raises
  \<^verbatim>\<open>ResourceConflict\<close> when its name is well-formed, its callback is not a
  coroutine function and its types are not empty.
\<close>

theorem rebinding_same_kind_conflicts:
  "(add_resource sa c va na (Some a) atys = (Return ra, sb) \<and> a \<noteq> [] \<and> later sb s
     \<longrightarrow> attrs (contexts s c) a = va
         \<and> (\<exists>e. add_resource s c v nm (Some a) tys = (Raise e, s))
         \<and> (v \<noteq> None \<and> resource_name_ok nm \<longrightarrow>
              add_resource s c v nm (Some a) tys = (Raise ResourceConflict, s)))
   \<and> (add_resource_factory sa c g gtys na (Some a) = (Return rg, sg) \<and> a \<noteq> [] \<and> later sg t
     \<longrightarrow> resource_factories_by_context_attr (contexts t c) a = Some rg
         \<and> (\<exists>e. add_resource_factory t c f ftys nm (Some a) = (Raise e, t))
         \<and> (resource_name_ok nm \<and> \<not> iscoroutinefunction f \<and> listed_types ftys \<noteq> [] \<longrightarrow>
              add_resource_factory t c f ftys nm (Some a) = (Raise ResourceConflict, t)))"
proof (intro conjI impI)
  assume h: "add_resource sa c va na (Some a) atys = (Return ra, sb) \<and> a \<noteq> [] \<and> later sb s"
  then have "va \<noteq> None"
    by (cases va) (auto simp: add_resource_def add_resource_in_def Let_def)
  then obtain x where x: "va = Some x" by blast
  from h have "attrs (contexts sb c) a = Some x"
    using add_resource_binds_attr x by blast
  with h have bound: "attrs (contexts s c) a = Some x"
    using bindings_persist by blast
  from bound x show "attrs (contexts s c) a = va" by simp
  from bound h show "\<exists>e. add_resource s c v nm (Some a) tys = (Raise e, s)"
    using add_resource_bound_attr_raises [of s c a v nm tys] by simp
  assume "v \<noteq> None \<and> resource_name_ok nm"
  with bound h show "add_resource s c v nm (Some a) tys = (Raise ResourceConflict, s)"
    using add_resource_bound_attr_raises [of s c a v nm tys] by simp
next
  assume h: "add_resource_factory sa c g gtys na (Some a) = (Return rg, sg) \<and> a \<noteq> []
             \<and> later sg t"
  then have "resource_factories_by_context_attr (contexts sg c) a = Some rg"
    using add_resource_factory_binds_alias by blast
  with h show bound: "resource_factories_by_context_attr (contexts t c) a = Some rg"
    using bindings_persist by blast
  from bound show "\<exists>e. add_resource_factory t c f ftys nm (Some a) = (Raise e, t)"
    using add_resource_factory_bound_alias_raises [of t c a f ftys nm] by simp
  assume "resource_name_ok nm \<and> \<not> iscoroutinefunction f \<and> listed_types ftys \<noteq> []"
  with bound show "add_resource_factory t c f ftys nm (Some a) = (Raise ResourceConflict, t)"
    using add_resource_factory_bound_alias_raises [of t c a f ftys nm] by simp
qed

lemma name_other_ok: "resource_name_ok ''other''"
  by (simp add: resource_name_ok_def is_word_char_def)

theorem rebinding_same_kind_conflicts_witness:
  "add_resource alias_resource_state 0 (Some (IntV 2)) ''other'' (Some ''session'') (TypeSeq [])
     = (Raise ResourceConflict, alias_resource_state)
   \<and> add_resource_factory alias_factory_state 0 make_session (OneType ''Other'') ''other''
       (Some ''session'')
     = (Raise ResourceConflict, alias_factory_state)"
proof -
  have first: "add_resource one_context 0 (Some (IntV 1)) ''default'' (Some ''session'') (TypeSeq [])
      = (Return \<lparr> value_or_factory = IntV 1, types = [''int''], name = ''default'',
                  context_attr = Some ''session'', is_factory = False \<rparr>, alias_resource_state)"
    by (simp add: example_defs model_defs)
  have first': "add_resource_factory one_context 0 make_session (OneType ''Session'') ''default''
        (Some ''session'')
      = (Return \<lparr> value_or_factory = fun_value make_session, types = [''Session''], name = ''default'',
                  context_attr = Some ''session'', is_factory = True \<rparr>, alias_factory_state)"
    by (simp add: example_defs model_defs)
  have coro: "\<not> iscoroutinefunction make_session"
    by (simp add: make_session_def)
  note inst = rebinding_same_kind_conflicts
      [where sa = one_context and c = 0 and a = "''session''"
         and va = "Some (IntV 1)" and na = "''default''" and atys = "TypeSeq []"
         and sb = alias_resource_state and s = alias_resource_state
         and v = "Some (IntV 2)" and nm = "''other''" and tys = "TypeSeq []"
         and g = make_session and gtys = "OneType ''Session''"
         and sg = alias_factory_state and t = alias_factory_state
         and f = make_session and ftys = "OneType ''Other''"]
  from inst first first' coro name_other_ok later_refl show ?thesis
    by (simp add: listed_types_def)
qed

section \<open>The three tiers of \<^verbatim>\<open>get_resource\<close>\<close>

text \<open>
  Claim C1. \<^verbatim>\<open>get_resource\<close> is a function of the state (it does not suspend) and
  \<^item> returns the value of the resource that the context itself holds under
    \<open>(T, n)\<close>, if there is one, whatever the chain holds;
  \<^item> otherwise, if \<open>d\<close> is the nearest context of the chain with a factory under
    \<open>(T, n)\<close>, does what \<^verbatim>\<open>generate_value\<close> of that factory does for the
    requesting context, whatever resources the chain holds; when nothing raises
    there, the result is the value that the factory callback returned;
  \<^item> otherwise returns the value of the resource of the nearest context of the
    chain that has one under \<open>(T, n)\<close>;
  \<^item> otherwise returns \<^verbatim>\<open>None\<close>.
\<close>


theorem get_resource_three_tier:
  "(resources (contexts s c) (T, n) = Some r
     \<longrightarrow> get_resource s c T n = (Return (Some (value_or_factory r)), s))
   \<and> (resources (contexts s c) (T, n) = None
      \<and> context_chain s c = Return (pre @ d # post)
      \<and> (\<forall>x\<in>set pre. resource_factories (contexts s x) (T, n) = None)
      \<and> resource_factories (contexts s d) (T, n) = Some f
     \<longrightarrow> get_resource s c T n = generate_value s f c
        \<and> (\<forall>v s'. is_factory f
              \<and> call_factory (value_or_factory f) (length (trace s)) c = Return v
              \<and> snd (generate_value s f c) = s'
              \<and> (\<forall>e. fst (generate_value s f c) \<noteq> Raise e)
             \<longrightarrow> get_resource s c T n = (Return v, s')))
   \<and> (resources (contexts s c) (T, n) = None
      \<and> context_chain s c = Return (pre' @ d' # post')
      \<and> (\<forall>x\<in>set (pre' @ d' # post'). resource_factories (contexts s x) (T, n) = None)
      \<and> (\<forall>x\<in>set pre'. resources (contexts s x) (T, n) = None)
      \<and> resources (contexts s d') (T, n) = Some r'
     \<longrightarrow> get_resource s c T n = (Return (Some (value_or_factory r')), s))
   \<and> (context_chain s c = Return chain
      \<and> (\<forall>x\<in>set chain. resource_factories (contexts s x) (T, n) = None
                        \<and> resources (contexts s x) (T, n) = None)
      \<and> resources (contexts s c) (T, n) = None
     \<longrightarrow> get_resource s c T n = (Return None, s))"
proof (intro conjI impI)
  assume "resources (contexts s c) (T, n) = Some r"
  then show "get_resource s c T n = (Return (Some (value_or_factory r)), s)"
    by (simp add: get_resource_def)
next
  assume h: "resources (contexts s c) (T, n) = None
      \<and> context_chain s c = Return (pre @ d # post)
      \<and> (\<forall>x\<in>set pre. resource_factories (contexts s x) (T, n) = None)
      \<and> resource_factories (contexts s d) (T, n) = Some f"
  then have "first_in_chain resource_factories s (pre @ d # post) (T, n) = Some f"
    by (intro first_in_chain_nearest) simp_all
  with h show g: "get_resource s c T n = generate_value s f c"
    by (simp add: get_resource_def)
  show "\<forall>v s'. is_factory f
              \<and> call_factory (value_or_factory f) (length (trace s)) c = Return v
              \<and> snd (generate_value s f c) = s'
              \<and> (\<forall>e. fst (generate_value s f c) \<noteq> Raise e)
             \<longrightarrow> get_resource s c T n = (Return v, s')"
    unfolding g
    by (auto simp: generate_value_def Let_def split: prod.splits result.splits)
next
  assume h: "resources (contexts s c) (T, n) = None
      \<and> context_chain s c = Return (pre' @ d' # post')
      \<and> (\<forall>x\<in>set (pre' @ d' # post'). resource_factories (contexts s x) (T, n) = None)
      \<and> (\<forall>x\<in>set pre'. resources (contexts s x) (T, n) = None)
      \<and> resources (contexts s d') (T, n) = Some r'"
  then have "first_in_chain resource_factories s (pre' @ d' # post') (T, n) = None"
    by (intro first_in_chain_none) simp
  moreover from h have "first_in_chain resources s (pre' @ d' # post') (T, n) = Some r'"
    by (intro first_in_chain_nearest) simp_all
  ultimately show "get_resource s c T n = (Return (Some (value_or_factory r')), s)"
    using h by (simp add: get_resource_def)
next
  assume h: "context_chain s c = Return chain
      \<and> (\<forall>x\<in>set chain. resource_factories (contexts s x) (T, n) = None
                        \<and> resources (contexts s x) (T, n) = None)
      \<and> resources (contexts s c) (T, n) = None"
  then have "first_in_chain resource_factories s chain (T, n) = None"
    and "first_in_chain resources s chain (T, n) = None"
    by (simp_all add: first_in_chain_none)
  with h show "get_resource s c T n = (Return None, s)"
    by (simp add: get_resource_def)
qed

lemma tiers_chain: "context_chain tiers_state 2 = Return [2, 1, 0]"
  by (simp add: context_chain_root context_chain_child example_defs model_defs)

theorem get_resource_three_tier_witness:
  "get_resource tiers_state 2 ''int'' ''default'' = (Return (Some (IntV 3)), tiers_state)
   \<and> fst (get_resource tiers_state 2 ''Session'' ''default'') = Return (Some (ObjV ''Session'' 0))
   \<and> get_resource tiers_state 2 ''str'' ''default'' = (Return (Some (StrV ''root'')), tiers_state)
   \<and> get_resource tiers_state 2 ''float'' ''default'' = (Return None, tiers_state)"
proof -
  let ?own = "\<lparr> value_or_factory = IntV 3, types = [''int''], name = ''default'',
               context_attr = None, is_factory = False \<rparr>"
  let ?fac = "\<lparr> value_or_factory = fun_value make_session, types = [''Session''], name = ''default'',
               context_attr = None, is_factory = True \<rparr>"
  let ?str = "\<lparr> value_or_factory = StrV ''root'', types = [''str''], name = ''default'',
               context_attr = None, is_factory = False \<rparr>"
  have own: "resources (contexts tiers_state 2) (''int'', ''default'') = Some ?own"
    by (simp add: example_defs model_defs)
  have chain: "context_chain tiers_state 2 = Return ([2] @ 1 # [0])"
    by (simp add: tiers_chain)
  have chain': "context_chain tiers_state 2 = Return ([2, 1] @ 0 # [])"
    by (simp add: tiers_chain)
  have nosession: "resources (contexts tiers_state 2) (''Session'', ''default'') = None"
    and nofac2: "\<forall>x\<in>set [2]. resource_factories (contexts tiers_state x) (''Session'', ''default'') = None"
    and fac1: "resource_factories (contexts tiers_state 1) (''Session'', ''default'') = Some ?fac"
    by (simp_all add: example_defs model_defs)
  have nostr: "resources (contexts tiers_state 2) (''str'', ''default'') = None"
    and nostrfac: "\<forall>x\<in>set ([2, 1] @ 0 # []). resource_factories (contexts tiers_state x) (''str'', ''default'') = None"
    and nostrpre: "\<forall>x\<in>set [2, 1]. resources (contexts tiers_state x) (''str'', ''default'') = None"
    and str0: "resources (contexts tiers_state 0) (''str'', ''default'') = Some ?str"
    by (simp_all add: example_defs model_defs)
  have nofloat: "\<forall>x\<in>set [2, 1, 0].
        resource_factories (contexts tiers_state x) (''float'', ''default'') = None
        \<and> resources (contexts tiers_state x) (''float'', ''default'') = None"
    and nofloat2: "resources (contexts tiers_state 2) (''float'', ''default'') = None"
    by (simp_all add: example_defs model_defs)
  note tier1 = get_resource_three_tier
      [where s = tiers_state and c = 2 and T = "''int''" and n = "''default''" and r = ?own,
       THEN conjunct1]
  note tier2 = get_resource_three_tier
      [where s = tiers_state and c = 2 and T = "''Session''" and n = "''default''"
         and pre = "[2]" and d = 1 and post = "[0]" and f = ?fac,
       THEN conjunct2, THEN conjunct1]
  note tier3 = get_resource_three_tier
      [where s = tiers_state and c = 2 and T = "''str''" and n = "''default''"
         and pre' = "[2, 1]" and d' = 0 and post' = "[]" and r' = ?str,
       THEN conjunct2, THEN conjunct2, THEN conjunct1]
  note miss = get_resource_three_tier
      [where s = tiers_state and c = 2 and T = "''float''" and n = "''default''"
         and chain = "[2, 1, 0]",
       THEN conjunct2, THEN conjunct2, THEN conjunct2]
  from tier1 own
  have "get_resource tiers_state 2 ''int'' ''default'' = (Return (Some (IntV 3)), tiers_state)"
    by simp
  moreover from tier2 nosession chain nofac2 fac1
  have "get_resource tiers_state 2 ''Session'' ''default'' = generate_value tiers_state ?fac 2"
    by blast
  then have "fst (get_resource tiers_state 2 ''Session'' ''default'')
      = Return (Some (ObjV ''Session'' 0))"
    by (simp add: example_defs model_defs)
  moreover from tier3 nostr chain' nostrfac nostrpre str0
  have "get_resource tiers_state 2 ''str'' ''default'' = (Return (Some (StrV ''root'')), tiers_state)"
    by simp
  moreover from miss tiers_chain nofloat nofloat2
  have "get_resource tiers_state 2 ''float'' ''default'' = (Return None, tiers_state)"
    by simp
  ultimately show ?thesis by blast
qed

section \<open>Factories generate once for each requesting context\<close>



lemma add_resource_effects:
  assumes "add_resource s c v nm attr tys = (Return res, s')"
  shows "v \<noteq> None" and "trace s' = trace s"
    and "x \<noteq> c \<Longrightarrow> contexts s' x = contexts s x"
    and "parent (contexts s' x) = parent (contexts s x)"
    and "t \<in> set (resolve_types tys v) \<Longrightarrow>
           map_option value_or_factory (resources (contexts s' c) (t, nm)) = v"
  using assms
  by (auto simp: add_resource_def add_resource_in_def Let_def update_context_def store_under_apply
      split: option.splits if_splits)


lemma first_in_chain_same_tables:
  "(\<forall>x. table (contexts s' x) = table (contexts s x)) \<Longrightarrow>
   first_in_chain table s' xs key = first_in_chain table s xs key"
  by (induction xs) (auto split: option.splits)


lemma generate_value_not_None:
  assumes "generate_value s f c = (Return r, s')"
  shows "r \<noteq> None"
proof -
  let ?s1 = "s\<lparr> trace := trace s @ [FactoryCalled (factory_name (value_or_factory f)) c] \<rparr>"
  from assms obtain res
    where "add_resource ?s1 c r (name f) (context_attr f) (TypeSeq (types f)) = (Return res, s')"
    by (auto simp: generate_value_def Let_def split: if_splits result.splits prod.splits)
  then show ?thesis by (rule add_resource_effects(1))
qed




section \<open>Closing a context\<close>

text \<open>
  Claim C6, as stated, fails for a callback that raises outside \<^verbatim>\<open>Exception\<close>:
  \<^verbatim>\<open>close\<close> catches with \<^verbatim>\<open>except Exception\<close>. With \<^verbatim>\<open>stop_a\<close> registered
  first and a callback that raises \<^verbatim>\<open>KeyboardInterrupt\<close> second, \<^verbatim>\<open>close\<close> raises
  that error after the one call, and \<^verbatim>\<open>stop_a\<close> is never called.
\<close>


theorem uncaught_teardown_error_counterexample:
  "teardown_callbacks (contexts interrupt_state 0) = Some [(stop_a, False), (stop_interrupted, False)]
   \<and> fst (close interrupt_state 0 None) = Raise (NonException ''KeyboardInterrupt'')
   \<and> trace (snd (close interrupt_state 0 None)) = [TeardownCalled ''stop_interrupted'' NoArg]"
  by (simp add: example_defs model_defs)

lemma log_log: "log s ev = s\<lparr> trace := trace s @ [ev] \<rparr>"
  by (simp add: log_def)

lemma run_callbacks_trace:
  "list_all (catchable exc) cbs \<Longrightarrow>
   run_callbacks s cbs exc = (Return (), s\<lparr> trace := trace s @ concat (map (callback_events exc) cbs) \<rparr>)"
proof (induction cbs arbitrary: s)
  case Nil
  then show ?case by simp
next
  case (Cons cb cbs)
  obtain callback pass_exception where cb: "cb = (callback, pass_exception)"
    by (cases cb)
  from Cons.prems have rest: "list_all (catchable exc) cbs" by simp
  note IH = Cons.IH [OF rest]
  from Cons.prems cb show ?case
    by (cases "call_teardown callback (if pass_exception then Arg exc else NoArg)")
       (auto simp: IH Let_def log_def split: option.splits)
qed

lemma run_callbacks_uncaught:
  "list_all (catchable exc) newer \<Longrightarrow> uncaught exc cbp = Some e \<Longrightarrow>
   run_callbacks s (newer @ cbp # older) exc
     = (Raise e,
        s\<lparr> trace := trace s @ concat (map (callback_events exc) newer)
                      @ butlast (callback_events exc cbp) \<rparr>)"
proof (induction newer arbitrary: s)
  case Nil
  obtain callback pass_exception where cbp: "cbp = (callback, pass_exception)"
    by (cases cbp)
  from Nil cbp show ?case
    by (cases "call_teardown callback (if pass_exception then Arg exc else NoArg)")
       (auto simp: Let_def log_def split: option.splits if_splits)
next
  case (Cons cb newer)
  obtain callback pass_exception where cb: "cb = (callback, pass_exception)"
    by (cases cb)
  from Cons.prems have rest: "list_all (catchable exc) newer" by simp
  note IH = Cons.IH [OF rest Cons.prems(2)]
  from Cons.prems cb show ?case
    by (cases "call_teardown callback (if pass_exception then Arg exc else NoArg)")
       (auto simp: IH Let_def log_def split: option.splits)
qed

text \<open>Either no callback raises outside \<^verbatim>\<open>Exception\<close>, or there is a first that does.\<close>

lemma catchable_uncaught: "catchable exc cbp \<longleftrightarrow> uncaught exc cbp = None"
  by (cases cbp) (auto split: cb_result.splits option.splits)

lemma teardown_cases:
  "list_all (catchable exc) cbs
   \<or> (\<exists>newer cbp older e. cbs = newer @ cbp # older \<and> list_all (catchable exc) newer
         \<and> uncaught exc cbp = Some e)"
proof (induction cbs)
  case Nil
  then show ?case by simp
next
  case (Cons cb cbs)
  show ?case
  proof (cases "catchable exc cb")
    case False
    then obtain e where "uncaught exc cb = Some e"
      by (auto simp: catchable_uncaught)
    then have "cb # cbs = [] @ cb # cbs \<and> list_all (catchable exc) [] \<and> uncaught exc cb = Some e"
      by simp
    then show ?thesis by blast
  next
    case True
    from Cons.IH show ?thesis
    proof
      assume "list_all (catchable exc) cbs"
      with True show ?thesis by simp
    next
      assume "\<exists>newer cbp older e. cbs = newer @ cbp # older \<and> list_all (catchable exc) newer
         \<and> uncaught exc cbp = Some e"
      then obtain newer cbp older e where "cbs = newer @ cbp # older"
        "list_all (catchable exc) newer" "uncaught exc cbp = Some e"
        by blast
      with True have "cb # cbs = (cb # newer) @ cbp # older \<and> list_all (catchable exc) (cb # newer)
         \<and> uncaught exc cbp = Some e"
        by simp
      then show ?thesis by blast
    qed
  qed
qed

text \<open>
  Claim C6, amended. \<^verbatim>\<open>add_teardown_callback\<close> appends to the list of callbacks.
  On a context that is not closed, whose callbacks raise nothing but instances of
  \<^verbatim>\<open>Exception\<close> (at the call or at the awaiting of what they returned),
  \<^verbatim>\<open>close\<close> returns, the context is closed, and what happened is, for each
  callback from the newest to the oldest, and for each entirely before the next:
  the call (with the terminating exception, or \<^verbatim>\<open>None\<close>, if registered with
  \<^verbatim>\<open>pass_exception\<close>, with no argument otherwise), the awaiting if it returned an
  awaitable, the logging if it raised. A second \<^verbatim>\<open>close\<close> raises
  \<^verbatim>\<open>RuntimeError\<close> and changes nothing, as does any \<^verbatim>\<open>close\<close> of a closed context.

  On a context that is not closed, where going from the newest callback to the
  oldest one is the first to raise outside \<^verbatim>\<open>Exception\<close>: \<^verbatim>\<open>close\<close> raises that
  error, with the context closed and its list deleted; the newer callbacks have
  run as above, the raising one was called (and awaited, if it was the awaiting
  that raised) and nothing was logged for it, and no older callback was called.
  A second \<^verbatim>\<open>close\<close> raises \<^verbatim>\<open>RuntimeError\<close> there too.
\<close>

theorem close_runs_teardown_callbacks:
  "(teardown_callbacks (contexts s c) = Some cbs
     \<longrightarrow> add_teardown_callback s c cb p
          = (Return (), update_context s c (\<lambda>ctx. ctx\<lparr> teardown_callbacks := Some (cbs @ [(cb, p)]) \<rparr>)))
   \<and> (\<not> closed (contexts s c) \<and> teardown_callbacks (contexts s c) = Some cbs
      \<and> list_all (catchable exc) cbs
     \<longrightarrow> (\<exists>s'. close s c exc = (Return (), s')
              \<and> closed (contexts s' c)
              \<and> trace s' = trace s @ concat (map (callback_events exc) (rev cbs))
              \<and> close s' c exc' = (Raise RuntimeError, s')))
   \<and> (closed (contexts s c) \<longrightarrow> close s c exc = (Raise RuntimeError, s))
   \<and> (\<not> closed (contexts s c) \<and> teardown_callbacks (contexts s c) = Some cbs
      \<and> rev cbs = newer @ cbp # older \<and> list_all (catchable exc) newer
      \<and> uncaught exc cbp = Some e
     \<longrightarrow> (\<exists>s'. close s c exc = (Raise e, s')
              \<and> closed (contexts s' c)
              \<and> teardown_callbacks (contexts s' c) = None
              \<and> trace s' = trace s @ concat (map (callback_events exc) newer)
                                     @ butlast (callback_events exc cbp)
              \<and> close s' c exc' = (Raise RuntimeError, s')))"
proof (intro conjI impI)
  assume "teardown_callbacks (contexts s c) = Some cbs"
  then show "add_teardown_callback s c cb p
          = (Return (), update_context s c (\<lambda>ctx. ctx\<lparr> teardown_callbacks := Some (cbs @ [(cb, p)]) \<rparr>))"
    by (simp add: add_teardown_callback_def getattr_teardown_callbacks_def static_callbacks_def)
next
  assume h: "\<not> closed (contexts s c) \<and> teardown_callbacks (contexts s c) = Some cbs
      \<and> list_all (catchable exc) cbs"
  let ?s1 = "update_context (update_context s c (\<lambda>ctx. ctx\<lparr> closed := True \<rparr>)) c
               (\<lambda>ctx. ctx\<lparr> teardown_callbacks := None \<rparr>)"
  let ?s' = "?s1\<lparr> trace := trace ?s1 @ concat (map (callback_events exc) (rev cbs)) \<rparr>"
  from h have "list_all (catchable exc) (rev cbs)" by (simp add: list_all_iff)
  from run_callbacks_trace [OF this, of ?s1] h
  have "close s c exc = (Return (), ?s')"
    by (simp add: close_def Let_def)
  moreover have "closed (contexts ?s' c)"
    by (simp add: update_context_def)
  moreover have "trace ?s' = trace s @ concat (map (callback_events exc) (rev cbs))"
    by (simp add: update_context_def)
  moreover from \<open>closed (contexts ?s' c)\<close> have "close ?s' c exc' = (Raise RuntimeError, ?s')"
    by (simp add: close_def)
  ultimately show "\<exists>s'. close s c exc = (Return (), s')
              \<and> closed (contexts s' c)
              \<and> trace s' = trace s @ concat (map (callback_events exc) (rev cbs))
              \<and> close s' c exc' = (Raise RuntimeError, s')"
    by blast
next
  assume "closed (contexts s c)"
  then show "close s c exc = (Raise RuntimeError, s)"
    by (simp add: close_def)
next
  assume h: "\<not> closed (contexts s c) \<and> teardown_callbacks (contexts s c) = Some cbs
      \<and> rev cbs = newer @ cbp # older \<and> list_all (catchable exc) newer
      \<and> uncaught exc cbp = Some e"
  let ?s1 = "update_context (update_context s c (\<lambda>ctx. ctx\<lparr> closed := True \<rparr>)) c
               (\<lambda>ctx. ctx\<lparr> teardown_callbacks := None \<rparr>)"
  let ?s' = "?s1\<lparr> trace := trace ?s1 @ concat (map (callback_events exc) newer)
                             @ butlast (callback_events exc cbp) \<rparr>"
  from h have "list_all (catchable exc) newer" and "uncaught exc cbp = Some e" by simp_all
  from run_callbacks_uncaught [OF this, of ?s1 older] h
  have "close s c exc = (Raise e, ?s')"
    by (simp add: close_def Let_def)
  moreover have shut: "closed (contexts ?s' c)"
    by (simp add: update_context_def)
  moreover have "teardown_callbacks (contexts ?s' c) = None"
    by (simp add: update_context_def)
  moreover have "trace ?s' = trace s @ concat (map (callback_events exc) newer)
                                     @ butlast (callback_events exc cbp)"
    by (simp add: update_context_def)
  moreover from shut have "close ?s' c exc' = (Raise RuntimeError, ?s')"
    by (simp add: close_def)
  ultimately show "\<exists>s'. close s c exc = (Raise e, s')
              \<and> closed (contexts s' c)
              \<and> teardown_callbacks (contexts s' c) = None
              \<and> trace s' = trace s @ concat (map (callback_events exc) newer)
                                     @ butlast (callback_events exc cbp)
              \<and> close s' c exc' = (Raise RuntimeError, s')"
    by blast
qed

theorem close_runs_teardown_callbacks_witness:
  "teardown_callbacks (contexts teardown_state 0)
     = Some [(stop_a, False), (stop_b, True), (stop_c, False)]
   \<and> (\<exists>s'. close teardown_state 0 (Some (OtherException ''crash'')) = (Return (), s')
         \<and> closed (contexts s' 0)
         \<and> trace s' = [TeardownCalled ''stop_c'' NoArg,
                        LoggedError ''stop_c'' (OtherException ''boom''),
                        TeardownCalled ''stop_b'' (Arg (Some (OtherException ''crash''))),
                        Awaited ''stop_b'',
                        TeardownCalled ''stop_a'' NoArg]
         \<and> close s' 0 None = (Raise RuntimeError, s'))
   \<and> add_teardown_callback one_context 0 stop_a False
     = (Return (),
        update_context one_context 0 (\<lambda>ctx. ctx\<lparr> teardown_callbacks := Some [(stop_a, False)] \<rparr>))
   \<and> close closed_state 0 None = (Raise RuntimeError, closed_state)
   \<and> (\<exists>s'. close mixed_state 0 None = (Raise (NonException ''KeyboardInterrupt''), s')
         \<and> closed (contexts s' 0)
         \<and> teardown_callbacks (contexts s' 0) = None
         \<and> trace s' = [TeardownCalled ''stop_c'' NoArg,
                        LoggedError ''stop_c'' (OtherException ''boom''),
                        TeardownCalled ''stop_interrupted'' NoArg]
         \<and> close s' 0 None = (Raise RuntimeError, s'))"
proof -
  have mixed: "teardown_callbacks (contexts mixed_state 0)
     = Some [(stop_a, False), (stop_interrupted, False), (stop_c, False)]"
    and mixed_open: "\<not> closed (contexts mixed_state 0)"
    and mixed_tr: "trace mixed_state = []"
    by (simp_all add: example_defs model_defs)
  have mixed_rev: "rev [(stop_a, False), (stop_interrupted, False), (stop_c, False)]
      = [(stop_c, False)] @ (stop_interrupted, False) # [(stop_a, False)]"
    by simp
  have newer_ok: "list_all (catchable None) [(stop_c, False)]"
    and interrupted: "uncaught None (stop_interrupted, False) = Some (NonException ''KeyboardInterrupt'')"
    by (simp_all add: example_defs)
  have mixed_evs: "concat (map (callback_events None) [(stop_c, False)])
        @ butlast (callback_events None (stop_interrupted, False))
      = [TeardownCalled ''stop_c'' NoArg,
         LoggedError ''stop_c'' (OtherException ''boom''),
         TeardownCalled ''stop_interrupted'' NoArg]"
    by (simp add: example_defs Let_def)
  from close_runs_teardown_callbacks
         [where s = mixed_state and c = 0 and exc = None
            and cbs = "[(stop_a, False), (stop_interrupted, False), (stop_c, False)]"
            and newer = "[(stop_c, False)]" and cbp = "(stop_interrupted, False)"
            and older = "[(stop_a, False)]" and e = "NonException ''KeyboardInterrupt''"
            and exc' = None,
          THEN conjunct2, THEN conjunct2, THEN conjunct2]
       mixed mixed_open mixed_rev newer_ok interrupted
  have "\<exists>s'. close mixed_state 0 None = (Raise (NonException ''KeyboardInterrupt''), s')
         \<and> closed (contexts s' 0)
         \<and> teardown_callbacks (contexts s' 0) = None
         \<and> trace s' = mixed_state_trace
         \<and> close s' 0 None = (Raise RuntimeError, s')"
    if "mixed_state_trace = trace mixed_state @ concat (map (callback_events None) [(stop_c, False)])
        @ butlast (callback_events None (stop_interrupted, False))" for mixed_state_trace
    using that by simp
  from this [OF refl] mixed_tr mixed_evs
  have left_at_once: "\<exists>s'. close mixed_state 0 None = (Raise (NonException ''KeyboardInterrupt''), s')
         \<and> closed (contexts s' 0)
         \<and> teardown_callbacks (contexts s' 0) = None
         \<and> trace s' = [TeardownCalled ''stop_c'' NoArg,
                        LoggedError ''stop_c'' (OtherException ''boom''),
                        TeardownCalled ''stop_interrupted'' NoArg]
         \<and> close s' 0 None = (Raise RuntimeError, s')"
    by simp
  have none: "teardown_callbacks (contexts one_context 0) = Some []"
    and shut: "closed (contexts closed_state 0)"
    by (simp_all add: example_defs model_defs)
  from close_runs_teardown_callbacks
         [where s = one_context and c = 0 and cbs = "[]" and cb = stop_a and p = False,
          THEN conjunct1] none
  have reg: "add_teardown_callback one_context 0 stop_a False
     = (Return (),
        update_context one_context 0 (\<lambda>ctx. ctx\<lparr> teardown_callbacks := Some [(stop_a, False)] \<rparr>))"
    by simp
  from close_runs_teardown_callbacks
         [where s = closed_state and c = 0 and exc = None,
          THEN conjunct2, THEN conjunct2, THEN conjunct1] shut
  have twice: "close closed_state 0 None = (Raise RuntimeError, closed_state)"
    by simp
  have cbs: "teardown_callbacks (contexts teardown_state 0)
     = Some [(stop_a, False), (stop_b, True), (stop_c, False)]"
    and open_: "\<not> closed (contexts teardown_state 0)"
    and tr: "trace teardown_state = []"
    by (simp_all add: example_defs model_defs)
  have ok: "list_all (catchable (Some (OtherException ''crash'')))
              [(stop_a, False), (stop_b, True), (stop_c, False)]"
    by (simp add: example_defs)
  have evs: "concat (map (callback_events (Some (OtherException ''crash'')))
                      (rev [(stop_a, False), (stop_b, True), (stop_c, False)]))
      = [TeardownCalled ''stop_c'' NoArg,
         LoggedError ''stop_c'' (OtherException ''boom''),
         TeardownCalled ''stop_b'' (Arg (Some (OtherException ''crash''))),
         Awaited ''stop_b'',
         TeardownCalled ''stop_a'' NoArg]"
    by (simp add: example_defs Let_def)
  from close_runs_teardown_callbacks
         [where s = teardown_state and c = 0 and exc = "Some (OtherException ''crash'')"
            and cbs = "[(stop_a, False), (stop_b, True), (stop_c, False)]" and exc' = None,
          THEN conjunct2, THEN conjunct1]
       cbs open_ ok tr evs
  have returned: "\<exists>s'. close teardown_state 0 (Some (OtherException ''crash'')) = (Return (), s')
         \<and> closed (contexts s' 0)
         \<and> trace s' = [TeardownCalled ''stop_c'' NoArg,
                        LoggedError ''stop_c'' (OtherException ''boom''),
                        TeardownCalled ''stop_b'' (Arg (Some (OtherException ''crash''))),
                        Awaited ''stop_b'',
                        TeardownCalled ''stop_a'' NoArg]
         \<and> close s' 0 None = (Raise RuntimeError, s')"
    by simp
  from cbs returned reg twice left_at_once show ?thesis by blast
qed

section \<open>Order of the start pass\<close>

lemma shuffles_subseq: "m \<in> shuffles t u \<Longrightarrow> subseq t m \<and> subseq u m"
  by (induction t u arbitrary: m rule: shuffles.induct) auto

lemma start_children_subseq:
  "start_children pth cs m \<Longrightarrow> (alias, ch) \<in> set cs \<Longrightarrow>
   \<exists>tc. start_component ch (final_path pth alias) (child_resource_name alias) tc \<and> subseq tc m"
proof (induction pth cs m rule: start_component_start_children.inducts(2)
        [where ?P1.0 = "\<lambda>_ _ _ _. True"])
  case (more_children ch' pth alias' t cs u m)
  then have run: "start_component ch' (final_path pth alias') (child_resource_name alias') t"
    and mem: "m \<in> shuffles t u"
    and prem: "(alias, ch) \<in> set ((alias', ch') # cs)"
    by simp_all
  from more_children
  have IH: "(alias, ch) \<in> set cs \<Longrightarrow>
      \<exists>tc. start_component ch (final_path pth alias) (child_resource_name alias) tc \<and> subseq tc u"
    by simp
  from mem shuffles_subseq have sub: "subseq t m" "subseq u m" by blast+
  show ?case
  proof (cases "(alias, ch) = (alias', ch')")
    case True
    with run sub show ?thesis by blast
  next
    case False
    with prem have "(alias, ch) \<in> set cs" by auto
    with IH obtain tc
      where "start_component ch (final_path pth alias) (child_resource_name alias) tc" "subseq tc u"
      by blast
    with sub show ?thesis using subseq_order.order_trans by blast
  qed
qed simp_all

text \<open>
  Claim C2. Every run of the start pass of a component is: the component is marked
  as started and its context entered, \<^verbatim>\<open>prepare\<close> is called, the status becomes
  \<^verbatim>\<open>starting\<close>, a task is launched for each child, the children run, and only
  then \<^verbatim>\<open>start\<close> is called. The part where the children run contains, for each
  child, a complete run of that child's own start pass (which ends with the
  child's \<^verbatim>\<open>start\<close>, after its own children). Among two children, every
  interleaving of their runs is a run of the parent: no order between them is
  fixed.
\<close>

theorem start_pass_order:
  "(start_component (Component cs) pth drn t
     \<longrightarrow> (\<exists>m. t = [MarkStarted pth, EnterContext pth drn, Prepare pth, StatusStarting pth]
                   @ map (\<lambda>ac. StartSoon (final_path pth (fst ac))) cs
                   @ m @ [Start pth, ExitContext pth]
              \<and> start_children pth cs m
              \<and> (\<forall>alias ch. (alias, ch) \<in> set cs \<longrightarrow>
                    (\<exists>tc. start_component ch (final_path pth alias) (child_resource_name alias) tc
                          \<and> subseq tc m))))
   \<and> (start_component ca (final_path pth a) (child_resource_name a) ta
      \<and> start_component cb (final_path pth b) (child_resource_name b) tb
      \<and> m \<in> shuffles ta tb
     \<longrightarrow> start_component (Component [(a, ca), (b, cb)]) pth drn
           ([MarkStarted pth, EnterContext pth drn, Prepare pth, StatusStarting pth]
            @ [StartSoon (final_path pth a), StartSoon (final_path pth b)]
            @ m @ [Start pth, ExitContext pth]))"
proof (intro conjI impI)
  assume "start_component (Component cs) pth drn t"
  then obtain m where t: "t = [MarkStarted pth, EnterContext pth drn, Prepare pth, StatusStarting pth]
                   @ map (\<lambda>ac. StartSoon (final_path pth (fst ac))) cs
                   @ m @ [Start pth, ExitContext pth]"
    and m: "start_children pth cs m"
    by (cases rule: start_component.cases) auto
  from m have "\<forall>alias ch. (alias, ch) \<in> set cs \<longrightarrow>
                    (\<exists>tc. start_component ch (final_path pth alias) (child_resource_name alias) tc
                          \<and> subseq tc m)"
    using start_children_subseq by blast
  with t m show "\<exists>m. t = [MarkStarted pth, EnterContext pth drn, Prepare pth, StatusStarting pth]
                   @ map (\<lambda>ac. StartSoon (final_path pth (fst ac))) cs
                   @ m @ [Start pth, ExitContext pth]
              \<and> start_children pth cs m
              \<and> (\<forall>alias ch. (alias, ch) \<in> set cs \<longrightarrow>
                    (\<exists>tc. start_component ch (final_path pth alias) (child_resource_name alias) tc
                          \<and> subseq tc m))"
    by blast
next
  assume h: "start_component ca (final_path pth a) (child_resource_name a) ta
      \<and> start_component cb (final_path pth b) (child_resource_name b) tb
      \<and> m \<in> shuffles ta tb"
  have "start_children pth [(b, cb)] tb"
    using more_children [OF _ no_child, of cb pth b tb tb] h by simp
  with h have "start_children pth [(a, ca), (b, cb)] m"
    using more_children by blast
  from run_component [OF this, of drn]
  show "start_component (Component [(a, ca), (b, cb)]) pth drn
           ([MarkStarted pth, EnterContext pth drn, Prepare pth, StatusStarting pth]
            @ [StartSoon (final_path pth a), StartSoon (final_path pth b)]
            @ m @ [Start pth, ExitContext pth])"
    by simp
qed

lemma append_in_shuffles: "xs @ ys \<in> shuffles xs ys"
proof (induction xs)
  case Nil
  then show ?case by simp
next
  case (Cons x xs)
  then show ?case by (simp add: Cons_in_shuffles_leftI)
qed

lemma leaf_runs: "start_component (Component []) pth drn (leaf_run pth drn)"
  using run_component [OF no_child, of pth drn] by (simp add: leaf_run_def)

theorem start_pass_order_witness:
  "start_component two_children [] ''default''
     ([MarkStarted [], EnterContext [] ''default'', Prepare [], StatusStarting [],
       StartSoon ''a'', StartSoon ''b/mail'']
      @ (leaf_run ''a'' ''default'' @ leaf_run ''b/mail'' ''mail'') @ [Start [], ExitContext []])
   \<and> start_component two_children [] ''default''
     ([MarkStarted [], EnterContext [] ''default'', Prepare [], StatusStarting [],
       StartSoon ''a'', StartSoon ''b/mail'']
      @ (leaf_run ''b/mail'' ''mail'' @ leaf_run ''a'' ''default'') @ [Start [], ExitContext []])
   \<and> (\<exists>m. ([MarkStarted [], EnterContext [] ''default'', Prepare [], StatusStarting [],
             StartSoon ''a'', StartSoon ''b/mail'']
            @ (leaf_run ''b/mail'' ''mail'' @ leaf_run ''a'' ''default'') @ [Start [], ExitContext []])
          = [MarkStarted [], EnterContext [] ''default'', Prepare [], StatusStarting []]
            @ [StartSoon ''a'', StartSoon ''b/mail''] @ m @ [Start [], ExitContext []]
        \<and> (\<exists>tc. start_component (Component []) ''a'' ''default'' tc \<and> subseq tc m))"
proof -
  have a: "start_component (Component []) (final_path [] ''a'') (child_resource_name ''a'')
             (leaf_run ''a'' ''default'')"
    using leaf_runs [of "''a''" "''default''"]
    by (simp add: final_path_def child_resource_name_def)
  have b: "start_component (Component []) (final_path [] ''b/mail'') (child_resource_name ''b/mail'')
             (leaf_run ''b/mail'' ''mail'')"
    using leaf_runs [of "''b/mail''" "''mail''"]
    by (simp add: final_path_def child_resource_name_def)
  have ab: "leaf_run ''a'' ''default'' @ leaf_run ''b/mail'' ''mail''
              \<in> shuffles (leaf_run ''a'' ''default'') (leaf_run ''b/mail'' ''mail'')"
    by (rule append_in_shuffles)
  have ba: "leaf_run ''b/mail'' ''mail'' @ leaf_run ''a'' ''default''
              \<in> shuffles (leaf_run ''a'' ''default'') (leaf_run ''b/mail'' ''mail'')"
    using append_in_shuffles [of "leaf_run ''b/mail'' ''mail''" "leaf_run ''a'' ''default''"]
    by (simp add: shuffles_commutes)
  note free = start_pass_order [THEN conjunct2, rule_format,
      where ca = "Component []" and cb = "Component []" and pth = "[]" and a = "''a''"
        and b = "''b/mail''" and ta = "leaf_run ''a'' ''default''"
        and tb = "leaf_run ''b/mail'' ''mail''" and drn = "''default''"]
  from free [of "leaf_run ''a'' ''default'' @ leaf_run ''b/mail'' ''mail''"] a b ab
  have run1: "start_component two_children [] ''default''
     ([MarkStarted [], EnterContext [] ''default'', Prepare [], StatusStarting [],
       StartSoon ''a'', StartSoon ''b/mail'']
      @ (leaf_run ''a'' ''default'' @ leaf_run ''b/mail'' ''mail'') @ [Start [], ExitContext []])"
    by (simp add: two_children_def final_path_def)
  from free [of "leaf_run ''b/mail'' ''mail'' @ leaf_run ''a'' ''default''"] a b ba
  have run2: "start_component two_children [] ''default''
     ([MarkStarted [], EnterContext [] ''default'', Prepare [], StatusStarting [],
       StartSoon ''a'', StartSoon ''b/mail'']
      @ (leaf_run ''b/mail'' ''mail'' @ leaf_run ''a'' ''default'') @ [Start [], ExitContext []])"
    by (simp add: two_children_def final_path_def)
  from start_pass_order [THEN conjunct1, rule_format, OF run2 [unfolded two_children_def]]
  obtain m where m: "([MarkStarted [], EnterContext [] ''default'', Prepare [], StatusStarting [],
             StartSoon ''a'', StartSoon ''b/mail'']
            @ (leaf_run ''b/mail'' ''mail'' @ leaf_run ''a'' ''default'') @ [Start [], ExitContext []])
          = [MarkStarted [], EnterContext [] ''default'', Prepare [], StatusStarting []]
            @ map (\<lambda>ac. StartSoon (final_path [] (fst ac))) [(''a'', Component []), (''b/mail'', Component [])]
            @ m @ [Start [], ExitContext []]"
    and sub: "\<forall>alias ch. (alias, ch) \<in> set [(''a'', Component []), (''b/mail'', Component [])] \<longrightarrow>
                    (\<exists>tc. start_component ch (final_path [] alias) (child_resource_name alias) tc
                          \<and> subseq tc m)"
    by blast
  from sub have "\<exists>tc. start_component (Component []) ''a'' ''default'' tc \<and> subseq tc m"
    by (auto simp: final_path_def child_resource_name_def)
  with m have "\<exists>m. ([MarkStarted [], EnterContext [] ''default'', Prepare [], StatusStarting [],
             StartSoon ''a'', StartSoon ''b/mail'']
            @ (leaf_run ''b/mail'' ''mail'' @ leaf_run ''a'' ''default'') @ [Start [], ExitContext []])
          = [MarkStarted [], EnterContext [] ''default'', Prepare [], StatusStarting []]
            @ [StartSoon ''a'', StartSoon ''b/mail''] @ m @ [Start [], ExitContext []]
        \<and> (\<exists>tc. start_component (Component []) ''a'' ''default'' tc \<and> subseq tc m)"
    by (auto simp: final_path_def)
  with run1 run2 show ?thesis by blast
qed

section \<open>Waiting for a resource to be added\<close>

lemma get_resource_None:
  assumes "get_resource s c T n = (Return None, s1)"
  shows "s1 = s" and "\<exists>ch. context_chain s c = Return ch"
proof -
  have "s1 = s \<and> (\<exists>ch. context_chain s c = Return ch)"
  proof (cases "resources (contexts s c) (T, n)")
    case (Some r)
    with assms show ?thesis by (simp add: get_resource_def)
  next
    case None
    show ?thesis
    proof (cases "context_chain s c")
      case (Raise e)
      with None assms show ?thesis by (simp add: get_resource_def)
    next
      case (Return ch)
      show ?thesis
      proof (cases "first_in_chain resource_factories s ch (T, n)")
        case (Some f)
        with None Return assms have "generate_value s f c = (Return None, s1)"
          by (simp add: get_resource_def)
        from generate_value_not_None [OF this] show ?thesis by simp
      next
        case nofac: None
        with None Return assms show ?thesis
          by (auto simp: get_resource_def split: option.splits)
      qed
    qed
  qed
  then show "s1 = s" and "\<exists>ch. context_chain s c = Return ch" by simp_all
qed

text \<open>
  Claim C5. \<^verbatim>\<open>request_resource\<close>
  \<^item> returns at once, with the value, when \<^verbatim>\<open>get_resource\<close> yields one;
  \<^item> otherwise, when \<^verbatim>\<open>get_resource\<close> yields \<^verbatim>\<open>None\<close>, changes nothing and is
    suspended, listening on the signals of the contexts of its chain, for the
    type and the name requested;
  \<^item> is woken by a notification exactly when it comes from a context of that
    chain and its container has the name and, among its types, the type;
  \<^item> when woken, returns what \<^verbatim>\<open>get_resource\<close> then returns, and stays suspended
    otherwise;
  \<^item> is woken by what a successful \<^verbatim>\<open>add_resource\<close> or
    \<^verbatim>\<open>add_resource_factory\<close> on a context of the chain dispatches, when the name
    is the one requested and the type is among the types registered;
  \<^item> raises only what \<^verbatim>\<open>get_resource\<close> raises: it has no failure of its own.
\<close>

theorem request_resource_waits:
  "(get_resource s c T n = (Return (Some v), s1)
     \<longrightarrow> request_resource s c T n = (Finished (Return (Some v)), s1))
   \<and> (get_resource s c T n = (Return None, s1)
     \<longrightarrow> s1 = s
        \<and> (\<exists>ch. context_chain s c = Return ch
              \<and> request_resource s c T n
                  = (Suspended \<lparr> signals = ch, wanted_type = T, wanted_name = n \<rparr>, s)))
   \<and> (wakes \<lparr> signals = ch, wanted_type = T, wanted_name = n \<rparr> (src, r)
        \<longleftrightarrow> src \<in> set ch \<and> name r = n \<and> T \<in> set (types r))
   \<and> (wakes w ev
     \<longrightarrow> request_resource_resume t c w ev
          = (Finished (fst (get_resource t c (wanted_type w) (wanted_name w))),
             snd (get_resource t c (wanted_type w) (wanted_name w))))
   \<and> (\<not> wakes w ev \<longrightarrow> request_resource_resume t c w ev = (Suspended w, t))
   \<and> (add_resource t p v' n attr tys = (Return r, t') \<and> p \<in> set ch
      \<and> T \<in> set (resolve_types tys v')
     \<longrightarrow> dispatched (contexts t' p) = dispatched (contexts t p) @ [r]
        \<and> wakes \<lparr> signals = ch, wanted_type = T, wanted_name = n \<rparr> (p, r))
   \<and> (add_resource_factory t p f ftys n attr = (Return r, t') \<and> p \<in> set ch
      \<and> T \<in> set (listed_types ftys)
     \<longrightarrow> dispatched (contexts t' p) = dispatched (contexts t p) @ [r]
        \<and> wakes \<lparr> signals = ch, wanted_type = T, wanted_name = n \<rparr> (p, r))
   \<and> (request_resource s c T n = (Finished (Raise e), s1)
     \<longrightarrow> get_resource s c T n = (Raise e, s1))
   \<and> (request_resource_resume t c w ev = (Finished (Raise e), t1)
     \<longrightarrow> get_resource t c (wanted_type w) (wanted_name w) = (Raise e, t1))"
proof (intro conjI impI)
  assume "get_resource s c T n = (Return (Some v), s1)"
  then show "request_resource s c T n = (Finished (Return (Some v)), s1)"
    by (simp add: request_resource_def)
next
  assume h: "get_resource s c T n = (Return None, s1)"
  from get_resource_None(1) [OF h] show eq: "s1 = s" .
  from get_resource_None(2) [OF h] obtain ch where ch: "context_chain s c = Return ch" by blast
  with h eq have "request_resource s c T n
                  = (Suspended \<lparr> signals = ch, wanted_type = T, wanted_name = n \<rparr>, s)"
    by (simp add: request_resource_def)
  with ch show "\<exists>ch. context_chain s c = Return ch
              \<and> request_resource s c T n
                  = (Suspended \<lparr> signals = ch, wanted_type = T, wanted_name = n \<rparr>, s)"
    by blast
next
  show "wakes \<lparr> signals = ch, wanted_type = T, wanted_name = n \<rparr> (src, r)
        \<longleftrightarrow> src \<in> set ch \<and> name r = n \<and> T \<in> set (types r)"
    by (simp add: wakes_def event_filter_def)
next
  assume "wakes w ev"
  then show "request_resource_resume t c w ev
          = (Finished (fst (get_resource t c (wanted_type w) (wanted_name w))),
             snd (get_resource t c (wanted_type w) (wanted_name w)))"
    by (simp add: request_resource_resume_def split: prod.splits)
next
  assume "\<not> wakes w ev"
  then show "request_resource_resume t c w ev = (Suspended w, t)"
    by (simp add: request_resource_resume_def)
next
  assume h: "add_resource t p v' n attr tys = (Return r, t') \<and> p \<in> set ch
      \<and> T \<in> set (resolve_types tys v')"
  then show "dispatched (contexts t' p) = dispatched (contexts t p) @ [r]"
    and "wakes \<lparr> signals = ch, wanted_type = T, wanted_name = n \<rparr> (p, r)"
    by (auto simp: add_resource_def add_resource_in_def Let_def update_context_def wakes_def event_filter_def
        split: option.splits if_splits)
next
  assume h: "add_resource_factory t p f ftys n attr = (Return r, t') \<and> p \<in> set ch
      \<and> T \<in> set (listed_types ftys)"
  then show "dispatched (contexts t' p) = dispatched (contexts t p) @ [r]"
    and "wakes \<lparr> signals = ch, wanted_type = T, wanted_name = n \<rparr> (p, r)"
    by (auto simp: add_resource_factory_def Let_def update_context_def wakes_def event_filter_def
        split: option.splits if_splits)
next
  assume h: "request_resource s c T n = (Finished (Raise e), s1)"
  show "get_resource s c T n = (Raise e, s1)"
  proof (cases "get_resource s c T n")
    case (Pair res s2)
    show ?thesis
    proof (cases res)
      case (Raise e')
      with Pair h show ?thesis by (simp add: request_resource_def)
    next
      case (Return v)
      show ?thesis
      proof (cases v)
        case None
        with Return Pair have g: "get_resource s c T n = (Return None, s2)" by simp
        from get_resource_None [OF g] obtain ch where "s2 = s" "context_chain s c = Return ch"
          by blast
        with g h show ?thesis by (simp add: request_resource_def)
      next
        case (Some x)
        with Return Pair h show ?thesis by (simp add: request_resource_def)
      qed
    qed
  qed
next
  assume "request_resource_resume t c w ev = (Finished (Raise e), t1)"
  then show "get_resource t c (wanted_type w) (wanted_name w) = (Raise e, t1)"
    by (auto simp: request_resource_resume_def split: if_splits prod.splits)
qed

theorem request_resource_waits_witness:
  "request_resource tiers_state 2 ''int'' ''default''
     = (Finished (Return (Some (IntV 3))), tiers_state)
   \<and> request_resource tiers_state 2 ''Mailer'' ''default''
     = (Suspended \<lparr> signals = [2, 1, 0], wanted_type = ''Mailer'', wanted_name = ''default'' \<rparr>,
        tiers_state)
   \<and> wakes \<lparr> signals = [2, 1, 0], wanted_type = ''Mailer'', wanted_name = ''default'' \<rparr>
        (0, \<lparr> value_or_factory = ObjV ''Mailer'' 7, types = [''Mailer''], name = ''default'',
              context_attr = None, is_factory = False \<rparr>)
   \<and> request_resource_resume mailer_state 2
        \<lparr> signals = [2, 1, 0], wanted_type = ''Mailer'', wanted_name = ''default'' \<rparr>
        (0, \<lparr> value_or_factory = ObjV ''Mailer'' 7, types = [''Mailer''], name = ''default'',
              context_attr = None, is_factory = False \<rparr>)
     = (Finished (Return (Some (ObjV ''Mailer'' 7))), mailer_state)
   \<and> request_resource_resume tiers_state 2
        \<lparr> signals = [2, 1, 0], wanted_type = ''Mailer'', wanted_name = ''default'' \<rparr>
        (3, \<lparr> value_or_factory = ObjV ''Mailer'' 7, types = [''Mailer''], name = ''default'',
              context_attr = None, is_factory = False \<rparr>)
     = (Suspended \<lparr> signals = [2, 1, 0], wanted_type = ''Mailer'', wanted_name = ''default'' \<rparr>,
        tiers_state)
   \<and> wakes \<lparr> signals = [2, 1, 0], wanted_type = ''Mailer'', wanted_name = ''default'' \<rparr>
        (1, \<lparr> value_or_factory = fun_value make_session, types = [''Mailer''], name = ''default'',
              context_attr = None, is_factory = True \<rparr>)
   \<and> fst (request_resource null_factory_state 0 ''Mailer'' ''default'')
       = Finished (Raise ValueError)
   \<and> get_resource null_factory_state 0 ''Mailer'' ''default''
       = (Raise ValueError, snd (request_resource null_factory_state 0 ''Mailer'' ''default''))"
proof -
  let ?w = "\<lparr> signals = [2, 1, 0], wanted_type = ''Mailer'', wanted_name = ''default'' \<rparr>"
  let ?rf = "\<lparr> value_or_factory = fun_value make_session, types = [''Mailer''], name = ''default'',
              context_attr = None, is_factory = True \<rparr>"
  have "fst (add_resource_factory tiers_state 1 make_session (OneType ''Mailer'') ''default'' None)
      = Return ?rf"
    by (simp add: example_defs model_defs)
  then have registered: "add_resource_factory tiers_state 1 make_session (OneType ''Mailer'')
        ''default'' None
      = (Return ?rf,
         snd (add_resource_factory tiers_state 1 make_session (OneType ''Mailer'') ''default'' None))"
    by (simp add: prod_eq_iff)
  from request_resource_waits [THEN conjunct2, THEN conjunct2, THEN conjunct2, THEN conjunct2,
      THEN conjunct2, THEN conjunct2, THEN conjunct1, rule_format,
      of tiers_state 1 make_session "OneType ''Mailer''" "''default''" None ?rf _
         "[2, 1, 0]" "''Mailer''"] registered
  have woken_by_factory: "wakes ?w (1, ?rf)"
    by (simp add: listed_types_def)
  have root_chain: "context_chain null_factory_state 0 = Return [0]"
    by (simp add: context_chain_root example_defs model_defs)
  have raised_fst: "fst (request_resource null_factory_state 0 ''Mailer'' ''default'')
      = Finished (Raise ValueError)"
    unfolding request_resource_def get_resource_def root_chain
    by (simp add: example_defs model_defs)
  then have raised: "request_resource null_factory_state 0 ''Mailer'' ''default''
      = (Finished (Raise ValueError),
         snd (request_resource null_factory_state 0 ''Mailer'' ''default''))"
    by (simp add: prod_eq_iff)
  from request_resource_waits [THEN conjunct2, THEN conjunct2, THEN conjunct2, THEN conjunct2,
      THEN conjunct2, THEN conjunct2, THEN conjunct2, THEN conjunct1, rule_format, OF raised]
  have not_its_own: "get_resource null_factory_state 0 ''Mailer'' ''default''
       = (Raise ValueError, snd (request_resource null_factory_state 0 ''Mailer'' ''default''))" .
  let ?r = "\<lparr> value_or_factory = ObjV ''Mailer'' 7, types = [''Mailer''], name = ''default'',
              context_attr = None, is_factory = False \<rparr>"
  have own: "get_resource tiers_state 2 ''int'' ''default'' = (Return (Some (IntV 3)), tiers_state)"
    by (simp add: example_defs model_defs)
  have miss: "get_resource tiers_state 2 ''Mailer'' ''default'' = (Return None, tiers_state)"
    unfolding get_resource_def tiers_chain
    by (simp add: example_defs model_defs)
  have added: "add_resource tiers_state 0 (Some (ObjV ''Mailer'' 7)) ''default'' None (TypeSeq [])
      = (Return ?r, mailer_state)"
    by (simp add: example_defs model_defs)
  have chain': "context_chain mailer_state 2 = Return [2, 1, 0]"
    by (simp add: context_chain_root context_chain_child example_defs model_defs)
  have found: "get_resource mailer_state 2 ''Mailer'' ''default''
      = (Return (Some (ObjV ''Mailer'' 7)), mailer_state)"
    unfolding get_resource_def chain'
    by (simp add: example_defs model_defs)
  note now = request_resource_waits [THEN conjunct1, rule_format, OF own]
  note wait = request_resource_waits [THEN conjunct2, THEN conjunct1, rule_format, OF miss]
  from wait tiers_chain have suspended: "request_resource tiers_state 2 ''Mailer'' ''default''
     = (Suspended ?w, tiers_state)"
    by auto
  from request_resource_waits [THEN conjunct2, THEN conjunct2, THEN conjunct2, THEN conjunct2,
      THEN conjunct2, THEN conjunct1, rule_format,
      of tiers_state 0 "Some (ObjV ''Mailer'' 7)" "''default''" None "TypeSeq []" ?r mailer_state
         "[2, 1, 0]" "''Mailer''"] added
  have woken: "wakes ?w (0, ?r)" by simp
  from request_resource_waits [THEN conjunct2, THEN conjunct2, THEN conjunct2, THEN conjunct1,
      rule_format, OF woken, of mailer_state 2] found
  have "request_resource_resume mailer_state 2 ?w (0, ?r)
     = (Finished (Return (Some (ObjV ''Mailer'' 7))), mailer_state)"
    by simp
  moreover
  from request_resource_waits [THEN conjunct2, THEN conjunct2, THEN conjunct1,
      of "[2, 1, 0]" "''Mailer''" "''default''" 3 ?r]
  have "\<not> wakes ?w (3, ?r)" by simp
  from request_resource_waits [THEN conjunct2, THEN conjunct2, THEN conjunct2, THEN conjunct2,
      THEN conjunct1, rule_format, OF this, of tiers_state 2]
  have "request_resource_resume tiers_state 2 ?w (3, ?r) = (Suspended ?w, tiers_state)" .
  moreover note now suspended woken woken_by_factory raised_fst not_its_own
  ultimately show ?thesis by blast
qed

section \<open>Names and propagation in a component context\<close>

text \<open>
  What the two methods of \<^verbatim>\<open>ComponentContext\<close> have in common: while the status is
  \<^verbatim>\<open>preparing\<close>, one call of the inherited method, on the context itself and
  with the name \<^verbatim>\<open>default\<close>; once it is \<^verbatim>\<open>starting\<close> and there is a parent, a
  call on the context itself with the name as given and then a call for the
  parent.
\<close>


lemma component_context_add:
  "(status cc = Preparing \<longrightarrow>
      cc_add_resource super_add s self cc v nm tys kw
        = (case super_add s self v (Some ''default'') tys kw of
             (Raise e, s1) \<Rightarrow> (Raise e, s1) | (Return _, s1) \<Rightarrow> (Return (), s1))
      \<and> cc_add_resource_factory super_add parent_add s self cc v nm tys kw
        = (case super_add s self v (Some ''default'') tys kw of
             (Raise e, s1) \<Rightarrow> (Raise e, s1) | (Return _, s1) \<Rightarrow> (Return (), s1)))
   \<and> (status cc = Starting \<and> cc_parent cc = Some p \<longrightarrow>
      cc_add_resource super_add s self cc v nm tys kw
        = (case super_add s self v nm tys kw of
             (Raise e, s1) \<Rightarrow> (Raise e, s1)
           | (Return _, s1) \<Rightarrow>
               super_add s1 p v (Some (name_or nm (default_resource_name cc))) tys kw)
      \<and> cc_add_resource_factory super_add parent_add s self cc v nm tys kw
        = (case super_add s self v nm tys kw of
             (Raise e, s1) \<Rightarrow> (Raise e, s1)
           | (Return _, s1) \<Rightarrow> parent_add s1 p v nm tys kw))"
  by (auto simp: cc_add_resource_def cc_add_resource_factory_def Let_def
      split: prod.splits result.splits)

text \<open>
  Claim C8 holds of resources and not of factories. With the status \<^verbatim>\<open>starting\<close>,
  the default resource name \<^verbatim>\<open>bar\<close> and no name given, \<^verbatim>\<open>add_resource\<close> adds
  to the parent under \<^verbatim>\<open>bar\<close>, and \<^verbatim>\<open>add_resource_factory\<close> passes the
  parent no name at all. \<^verbatim>\<open>add_resource_factory\<close> calls the parent's own method:
  when the parent is a component context whose status is \<^verbatim>\<open>starting\<close>, the
  factory goes on to the parent's parent, where the resource stops at the parent.
\<close>

theorem factory_propagation_differs:
  "cc_add_resource record_call [] 1 starting_context (IntV 1) None (TypeSeq []) ()
     = (Return (), [(1, None), (0, Some ''bar'')])
   \<and> cc_add_resource_factory record_call record_call [] 1 starting_context make_session None
        (TypeSeq [''Session'']) ()
     = (Return (), [(1, None), (0, None)])
   \<and> cc_add_resource_factory record_call
        (\<lambda>s p. cc_add_resource_factory record_call record_call s p starting_context)
        [] 2 starting_child make_session (Some ''db'') (TypeSeq [''Session'']) ()
     = (Return (), [(2, Some ''db''), (1, Some ''db''), (0, Some ''db'')])
   \<and> cc_add_resource record_call [] 2 starting_child (IntV 1) (Some ''db'') (TypeSeq []) ()
     = (Return (), [(2, Some ''db''), (1, Some ''db'')])"
  by (simp add: cc_add_resource_def cc_add_resource_factory_def record_call_def name_or_def
      example_defs Let_def)

section \<open>Names of registered resources\<close>

text \<open>
  The resources that a context holds after any history of operations from the
  empty state are stored under well-formed names: \<^verbatim>\<open>add_resource\<close> is the only
  operation that writes to the table of resources, and it checks the name.
\<close>

lemma add_resource_in_keys:
  "resources (contexts (snd (add_resource_in loop s c v nm attr tys)) x) (T, n) = Some r \<Longrightarrow>
   resources (contexts s x) (T, n) = Some r \<or> resource_name_ok n"
  by (auto simp: add_resource_in_def Let_def update_context_def store_under_apply
      split: option.splits if_splits)

lemma add_resource_keys:
  "resources (contexts (snd (add_resource s c v nm attr tys)) x) (T, n) = Some r \<Longrightarrow>
   resources (contexts s x) (T, n) = Some r \<or> resource_name_ok n"
  unfolding add_resource_def by (rule add_resource_in_keys)

lemma generate_value_keys:
  assumes "resources (contexts (snd (generate_value s f c)) x) (T, n) = Some r"
  shows "resources (contexts s x) (T, n) = Some r \<or> resource_name_ok n"
  using generate_value_snd [of s f c] assms
proof (elim disjE exE)
  fix v
  assume "resources (contexts (snd (generate_value s f c)) x) (T, n) = Some r"
    and "snd (generate_value s f c)
      = snd (add_resource (log s (FactoryCalled (factory_name (value_or_factory f)) c)) c v
               (name f) (context_attr f) (TypeSeq (types f)))"
  then show ?thesis using add_resource_keys
    by (metis log_contexts)
qed simp_all

lemma get_resource_keys:
  assumes "resources (contexts (snd (get_resource s c ty nm)) x) (T, n) = Some r"
  shows "resources (contexts s x) (T, n) = Some r \<or> resource_name_ok n"
  using get_resource_snd [of s c ty nm] assms generate_value_keys
  by (elim disjE exE) auto

lemma add_teardown_callback_keys:
  assumes "resources (contexts (snd (add_teardown_callback s c cb p)) x) (T, n) = Some r"
  shows "resources (contexts s x) (T, n) = Some r \<or> resource_name_ok n"
  using add_teardown_callback_snd [of s c cb p] assms generate_value_keys
  by (elim disjE exE) (auto simp: update_context_def split: if_splits)

lemma registered_names_ok:
  "later s0 s \<Longrightarrow>
   (\<And>x T n r. resources (contexts s0 x) (T, n) = Some r \<Longrightarrow> resource_name_ok n) \<Longrightarrow>
   resources (contexts s x) (T, n) = Some r \<Longrightarrow> resource_name_ok n"
proof (induction arbitrary: x T n r rule: later.induct)
  case (later_refl s)
  then show ?case by blast
next
  case (later_add_resource s s1 loop c v nm attr tys)
  then show ?case using add_resource_in_keys by blast
next
  case (later_add_resource_factory s s1 c f tys nm attr)
  from later_add_resource_factory.prems(2)
  have "resources (contexts s1 x) (T, n) = Some r"
    by (auto simp: add_resource_factory_def Let_def update_context_def split: if_splits)
  with later_add_resource_factory show ?case by blast
next
  case (later_get_resource s s1 c ty nm)
  then show ?case using get_resource_keys by blast
next
  case (later_add_teardown_callback s s1 c cb pass_exception)
  then show ?case using add_teardown_callback_keys by blast
next
  case (later_close s s1 c exc)
  from later_close.prems(2)
  have "resources (contexts s1 x) (T, n) = Some r"
    by (auto simp: close_def Let_def update_context_def run_callbacks_contexts
        split: option.splits if_splits)
  with later_close show ?case by blast
next
  case (later_new_context s s1 c p)
  from later_new_context.prems(2)
  have "resources (contexts s1 x) (T, n) = Some r"
    by (auto simp: new_context_def update_context_def init_context_def split: if_splits)
  with later_new_context show ?case by blast
qed

lemma registered_names_ok_from_empty:
  "later empty_state s \<Longrightarrow> resources (contexts s x) (T, n) = Some r \<Longrightarrow> resource_name_ok n"
  by (erule registered_names_ok) (simp_all add: empty_state_def init_context_def)

section \<open>Parents are numbered below their children\<close>

text \<open>
  No operation changes the parent of a context, and a new context is numbered
  above its parent: in every state later than the empty one, the test \<open>p < c\<close> of
  \<open>context_chain\<close> holds at every context that has a parent.
\<close>

lemma add_resource_in_parent:
  "parent (contexts (snd (add_resource_in loop s c v nm attr tys)) x) = parent (contexts s x)"
  by (auto simp: add_resource_in_def Let_def update_context_def split: option.splits)

lemma generate_value_parent:
  "parent (contexts (snd (generate_value s f c)) x) = parent (contexts s x)"
  using generate_value_snd [of s f c]
  by (elim disjE exE) (simp_all add: add_resource_def add_resource_in_parent)

lemma get_resource_parent:
  "parent (contexts (snd (get_resource s c ty nm)) x) = parent (contexts s x)"
  using get_resource_snd [of s c ty nm]
  by (elim disjE exE) (simp_all add: generate_value_parent)

lemma add_teardown_callback_parent:
  "parent (contexts (snd (add_teardown_callback s c cb p)) x) = parent (contexts s x)"
  using add_teardown_callback_snd [of s c cb p]
  by (elim disjE exE) (simp_all add: generate_value_parent update_context_def)

lemma parents_below:
  "later s0 s \<Longrightarrow> (\<And>c p. parent (contexts s0 c) = Some p \<Longrightarrow> p < c) \<Longrightarrow>
   parent (contexts s c) = Some p \<Longrightarrow> p < c"
proof (induction arbitrary: c p rule: later.induct)
  case (later_refl s)
  then show ?case by blast
next
  case (later_add_resource s s1 loop c' v nm attr tys)
  then show ?case by (simp add: add_resource_in_parent)
next
  case (later_add_resource_factory s s1 c' f tys nm attr)
  from later_add_resource_factory.prems(2)
  have "parent (contexts s1 c) = Some p"
    by (auto simp: add_resource_factory_def Let_def update_context_def split: if_splits)
  with later_add_resource_factory show ?case by blast
next
  case (later_get_resource s s1 c' ty nm)
  then show ?case by (simp add: get_resource_parent)
next
  case (later_add_teardown_callback s s1 c' cb pass_exception)
  then show ?case by (simp add: add_teardown_callback_parent)
next
  case (later_close s s1 c' exc)
  from later_close.prems(2)
  have "parent (contexts s1 c) = Some p"
    by (auto simp: close_def Let_def update_context_def run_callbacks_contexts
        split: option.splits if_splits)
  with later_close show ?case by blast
next
  case (later_new_context s s1 c' q)
  show ?case
  proof (cases "c = c'")
    case True
    with later_new_context.prems(2) have "q = Some p"
      by (simp add: new_context_def update_context_def init_context_def)
    with later_new_context.hyps True show ?thesis by simp
  next
    case False
    with later_new_context.prems(2) have "parent (contexts s1 c) = Some p"
      by (simp add: new_context_def update_context_def)
    with later_new_context show ?thesis by blast
  qed
qed

lemma parents_below_from_empty:
  "later empty_state s \<Longrightarrow> parent (contexts s c) = Some p \<Longrightarrow> p < c"
  by (erule parents_below) (simp_all add: empty_state_def init_context_def)

end
